theory Spec2Isabelle
  imports Main
begin

section \<open>The roadmap issue script: data\<close>

text \<open>
  The script \<^verbatim>\<open>create-roadmap-issues.py\<close> resolves an access token, makes sure the
  label \<^verbatim>\<open>feature\<close> exists in the repository, and then posts one issue per entry of
  the static list \<^verbatim>\<open>ISSUES\<close>. Python strings are modelled as \<^typ>\<open>string\<close>; every
  string of the script that reaches a request is ASCII.
\<close>

definition REPO_OWNER :: string where
  "REPO_OWNER = ''eddiemoore''"

definition REPO_NAME :: string where
  "REPO_NAME = ''StructureCreator''"

text \<open>An entry of \<^verbatim>\<open>ISSUES\<close>: a dict with the two keys \<^verbatim>\<open>"title"\<close> and \<^verbatim>\<open>"body"\<close>.\<close>

record issue =
  title :: string
  body :: string

text \<open>
  The bodies of the entries, in the order of the list: \<open>body_01\<close> is the body of the first
  entry. A line break inside a body is the character \<open>\<newline>\<close>.
\<close>

definition body_01 :: string where
  \<open>body_01 =
    ''## Description\<newline>'' @
    ''Implement a drag-and-drop tree editor to build folder structures visually instead of writing XML manually.\<newline>'' @
    ''\<newline>'' @
    ''## Features\<newline>'' @
    ''- Drag-and-drop interface to build folder structures\<newline>'' @
    ''- Add/remove/rename nodes without writing XML\<newline>'' @
    ''- Right-click context menus for common actions\<newline>'' @
    ''- Double-click to edit names inline\<newline>'' @
    ''- Visual indicators for files vs folders\<newline>'' @
    ''- Undo/redo for tree modifications\<newline>'' @
    ''\<newline>'' @
    ''## Benefits\<newline>'' @
    ''- Greatly improves usability for non-technical users\<newline>'' @
    ''- Reduces errors from manual XML editing\<newline>'' @
    ''- Speeds up template creation workflow\<newline>'' @
    ''\<newline>'' @
    ''## Category\<newline>'' @
    ''High-Priority Feature\<newline>'' @
    ''\<newline>'' @
    ''## Related\<newline>'' @
    ''See ROADMAP.md for additional context''\<close>

definition body_02 :: string where
  \<open>body_02 =
    ''## Description\<newline>'' @
    ''Create a command-line interface for Structure Creator to enable automation and CI/CD integration.\<newline>'' @
    ''\<newline>'' @
    ''## Features\<newline>'' @
    ''```bash\<newline>'' @
    ''# Create from template\<newline>'' @
    ''structure-creator create --template "React App" --output ./my-app --var NAME=MyProject\<newline>'' @
    ''\<newline>'' @
    ''# Create from XML file\<newline>'' @
    ''structure-creator create --schema ./schema.xml --output ./project\<newline>'' @
    ''\<newline>'' @
    ''# List templates\<newline>'' @
    ''structure-creator templates list\<newline>'' @
    ''\<newline>'' @
    ''# Export template\<newline>'' @
    ''structure-creator templates export "React App" --output ./react-app.sct\<newline>'' @
    ''\<newline>'' @
    ''# Dry run\<newline>'' @
    ''structure-creator create --template "React App" --output ./my-app --dry-run\<newline>'' @
    ''```\<newline>'' @
    ''\<newline>'' @
    ''## Benefits\<newline>'' @
    ''- Enables automation and scripting\<newline>'' @
    ''- CI/CD pipeline integration\<newline>'' @
    ''- Batch operations support\<newline>'' @
    ''- Headless server usage\<newline>'' @
    ''\<newline>'' @
    ''## Category\<newline>'' @
    ''High-Priority Feature\<newline>'' @
    ''\<newline>'' @
    ''## Related\<newline>'' @
    ''See ROADMAP.md for additional context''\<close>

definition body_03 :: string where
  \<open>body_03 =
    ''## Description\<newline>'' @
    ''Add if/else syntax to schemas for creating reusable templates that adapt based on variable values.\<newline>'' @
    ''\<newline>'' @
    ''## Example\<newline>'' @
    ''```xml\<newline>'' @
    ''<folder name="src">\<newline>'' @
    ''  <if var="USE_TYPESCRIPT">\<newline>'' @
    ''    <file name="index.ts" />\<newline>'' @
    ''  </if>\<newline>'' @
    ''  <else>\<newline>'' @
    ''    <file name="index.js" />\<newline>'' @
    ''  </else>\<newline>'' @
    ''</folder>\<newline>'' @
    ''```\<newline>'' @
    ''\<newline>'' @
    ''## Benefits\<newline>'' @
    ''- More flexible and reusable templates\<newline>'' @
    ''- Single template can handle multiple configurations\<newline>'' @
    ''- Reduces template duplication\<newline>'' @
    ''\<newline>'' @
    ''## Category\<newline>'' @
    ''High-Priority Feature\<newline>'' @
    ''\<newline>'' @
    ''## Related\<newline>'' @
    ''See ROADMAP.md for additional context''\<close>

definition body_04 :: string where
  \<open>body_04 =
    ''## Description\<newline>'' @
    ''Enable sharing templates as portable files, providing the foundation for a future template hub.\<newline>'' @
    ''\<newline>'' @
    ''## Features\<newline>'' @
    ''- Export templates as .sct files (structured JSON bundle)\<newline>'' @
    ''- Import from local files\<newline>'' @
    ''- Import from URLs\<newline>'' @
    ''- Bulk import/export\<newline>'' @
    ''- Include/exclude variables option\<newline>'' @
    ''\<newline>'' @
    ''## Benefits\<newline>'' @
    ''- Easy template sharing between users and teams\<newline>'' @
    ''- Backup and restore templates\<newline>'' @
    ''- Foundation for community template hub\<newline>'' @
    ''- Version control for templates\<newline>'' @
    ''\<newline>'' @
    ''## Category\<newline>'' @
    ''High-Priority Feature\<newline>'' @
    ''\<newline>'' @
    ''## Related\<newline>'' @
    ''See ROADMAP.md for additional context''\<close>

definition body_05 :: string where
  \<open>body_05 =
    ''## Description\<newline>'' @
    ''Allow running commands automatically after structure creation (e.g., npm install, git init, code .).\<newline>'' @
    ''\<newline>'' @
    ''## Example\<newline>'' @
    ''```xml\<newline>'' @
    ''<schema>\<newline>'' @
    ''  <folder name="my-project">...</folder>\<newline>'' @
    ''  <hooks>\<newline>'' @
    ''    <post-create>npm install</post-create>\<newline>'' @
    ''    <post-create>git init</post-create>\<newline>'' @
    ''    <post-create>code .</post-create>\<newline>'' @
    ''  </hooks>\<newline>'' @
    ''</schema>\<newline>'' @
    ''```\<newline>'' @
    ''\<newline>'' @
    ''## Benefits\<newline>'' @
    ''- Automates common setup tasks\<newline>'' @
    ''- Reduces manual steps after creation\<newline>'' @
    ''- Improves workflow efficiency\<newline>'' @
    ''- Consistent project initialization\<newline>'' @
    ''\<newline>'' @
    ''## Category\<newline>'' @
    ''High-Priority Feature\<newline>'' @
    ''\<newline>'' @
    ''## Related\<newline>'' @
    ''See ROADMAP.md for additional context''\<close>

definition body_06 :: string where
  \<open>body_06 =
    ''## Description\<newline>'' @
    ''Add loop/repeat functionality to generate multiple similar structures dynamically.\<newline>'' @
    ''\<newline>'' @
    ''## Example\<newline>'' @
    ''```xml\<newline>'' @
    ''<repeat count="%NUM_MODULES%" as="i">\<newline>'' @
    ''  <folder name="module_%i%">\<newline>'' @
    ''    <file name="index.ts" />\<newline>'' @
    ''  </folder>\<newline>'' @
    ''</repeat>\<newline>'' @
    ''```\<newline>'' @
    ''\<newline>'' @
    ''## Benefits\<newline>'' @
    ''- Generate multiple similar structures efficiently\<newline>'' @
    ''- Dynamic structure creation based on variables\<newline>'' @
    ''- Reduces repetitive XML writing\<newline>'' @
    ''\<newline>'' @
    ''## Category\<newline>'' @
    ''Schema Enhancement\<newline>'' @
    ''\<newline>'' @
    ''## Related\<newline>'' @
    ''See ROADMAP.md for additional context''\<close>

definition body_07 :: string where
  \<open>body_07 =
    ''## Description\<newline>'' @
    ''Add support for variable transformations, types, and validation.\<newline>'' @
    ''\<newline>'' @
    ''## Features\<newline>'' @
    ''- Case transformations: `%NAME:uppercase%`, `%NAME:kebab-case%`, `%NAME:camelCase%`\<newline>'' @
    ''- Date formatting: `%DATE:format(YYYY-MM-DD)%`\<newline>'' @
    ''- Computed values: `%NAME:plural%`, `%NAME:length%`\<newline>'' @
    ''- Validation rules: regex patterns, min/max length, required fields\<newline>'' @
    ''\<newline>'' @
    ''## Benefits\<newline>'' @
    ''- More powerful variable system\<newline>'' @
    ''- Automatic name formatting\<newline>'' @
    ''- Input validation\<newline>'' @
    ''- Reduces manual text manipulation\<newline>'' @
    ''\<newline>'' @
    ''## Category\<newline>'' @
    ''Schema Enhancement\<newline>'' @
    ''\<newline>'' @
    ''## Related\<newline>'' @
    ''See ROADMAP.md for additional context''\<close>

definition body_08 :: string where
  \<open>body_08 =
    ''## Description\<newline>'' @
    ''Allow templates to extend other templates for better code reuse and modularity.\<newline>'' @
    ''\<newline>'' @
    ''## Example\<newline>'' @
    ''```xml\<newline>'' @
    ''<template extends="base-react-app">\<newline>'' @
    ''  <folder name="additional-feature">\<newline>'' @
    ''    <file name="feature.ts" />\<newline>'' @
    ''  </folder>\<newline>'' @
    ''</template>\<newline>'' @
    ''```\<newline>'' @
    ''\<newline>'' @
    ''## Benefits\<newline>'' @
    ''- Better template organization\<newline>'' @
    ''- Reduced duplication\<newline>'' @
    ''- Easier maintenance\<newline>'' @
    ''- Modular template design\<newline>'' @
    ''\<newline>'' @
    ''## Category\<newline>'' @
    ''Schema Enhancement\<newline>'' @
    ''\<newline>'' @
    ''## Related\<newline>'' @
    ''See ROADMAP.md for additional context''\<close>

definition body_09 :: string where
  \<open>body_09 =
    ''## Description\<newline>'' @
    ''Implement a full templating engine for file contents with conditional logic and loops.\<newline>'' @
    ''\<newline>'' @
    ''## Example\<newline>'' @
    ''```xml\<newline>'' @
    ''<file name="README.md"><![CDATA[\<newline>'' @
    ''# %PROJECT_NAME%\<newline>'' @
    ''\<newline>'' @
    ''Created on %DATE%\<newline>'' @
    ''\<newline>'' @
    ''## Installation\<newline>'' @
    ''\<newline>'' @
    ''{{if USE_NPM}}\<newline>'' @
    ''npm install\<newline>'' @
    ''{{else}}\<newline>'' @
    ''yarn install\<newline>'' @
    ''{{endif}}\<newline>'' @
    ''\<newline>'' @
    ''## Features\<newline>'' @
    ''{{for feature in FEATURES}}\<newline>'' @
    ''- {{feature}}\<newline>'' @
    ''{{endfor}}\<newline>'' @
    '']]></file>\<newline>'' @
    ''```\<newline>'' @
    ''\<newline>'' @
    ''## Benefits\<newline>'' @
    ''- Dynamic file content generation\<newline>'' @
    ''- Complex template logic in files\<newline>'' @
    ''- Reduces need for post-processing\<newline>'' @
    ''- More powerful file generation\<newline>'' @
    ''\<newline>'' @
    ''## Category\<newline>'' @
    ''Schema Enhancement\<newline>'' @
    ''\<newline>'' @
    ''## Related\<newline>'' @
    ''See ROADMAP.md for additional context''\<close>

definition body_10 :: string where
  \<open>body_10 =
    ''## Description\<newline>'' @
    ''Enhance dry run mode with visual comparison of planned changes vs existing files.\<newline>'' @
    ''\<newline>'' @
    ''## Features\<newline>'' @
    ''- Visual comparison of planned vs existing files\<newline>'' @
    ''- Color coding: green (new), red (overwrite), yellow (skip)\<newline>'' @
    ''- Expandable tree view showing all changes\<newline>'' @
    ''- Summary statistics at top\<newline>'' @
    ''\<newline>'' @
    ''## Benefits\<newline>'' @
    ''- Better understanding of what will change\<newline>'' @
    ''- Prevents accidental overwrites\<newline>'' @
    ''- More confidence before execution\<newline>'' @
    ''- Clear visualization of impact\<newline>'' @
    ''\<newline>'' @
    ''## Category\<newline>'' @
    ''User Experience\<newline>'' @
    ''\<newline>'' @
    ''## Related\<newline>'' @
    ''See ROADMAP.md for additional context''\<close>

definition body_11 :: string where
  \<open>body_11 =
    ''## Description\<newline>'' @
    ''Add comprehensive template search and tagging system.\<newline>'' @
    ''\<newline>'' @
    ''## Features\<newline>'' @
    ''- Full-text search across template names and descriptions\<newline>'' @
    ''- Tagging system (e.g., "react", "python", "monorepo", "backend")\<newline>'' @
    ''- Filter templates by tags\<newline>'' @
    ''- Sort by name, date, usage, favorites\<newline>'' @
    ''\<newline>'' @
    ''## Benefits\<newline>'' @
    ''- Easy template discovery\<newline>'' @
    ''- Better organization\<newline>'' @
    ''- Quick finding of relevant templates\<newline>'' @
    ''- Improved template management\<newline>'' @
    ''\<newline>'' @
    ''## Category\<newline>'' @
    ''User Experience\<newline>'' @
    ''\<newline>'' @
    ''## Related\<newline>'' @
    ''See ROADMAP.md for additional context''\<close>

definition body_12 :: string where
  \<open>body_12 =
    ''## Description\<newline>'' @
    ''Track recently created structures for quick re-creation with modifications.\<newline>'' @
    ''\<newline>'' @
    ''## Features\<newline>'' @
    ''- Track last N created structures\<newline>'' @
    ''- Quick re-create with same settings\<newline>'' @
    ''- Edit variables and re-run\<newline>'' @
    ''- Clear history option\<newline>'' @
    ''\<newline>'' @
    ''## Benefits\<newline>'' @
    ''- Faster iteration on templates\<newline>'' @
    ''- Easy recreation of similar projects\<newline>'' @
    ''- Improves workflow efficiency\<newline>'' @
    ''- Reduces repetitive data entry\<newline>'' @
    ''\<newline>'' @
    ''## Category\<newline>'' @
    ''User Experience\<newline>'' @
    ''\<newline>'' @
    ''## Related\<newline>'' @
    ''See ROADMAP.md for additional context''\<close>

definition body_13 :: string where
  \<open>body_13 =
    ''## Description\<newline>'' @
    ''Add comprehensive keyboard shortcuts for common operations.\<newline>'' @
    ''\<newline>'' @
    ''## Shortcuts\<newline>'' @
    ''- `Cmd/Ctrl + Enter` - Create structure\<newline>'' @
    ''- `Cmd/Ctrl + N` - New template\<newline>'' @
    ''- `Cmd/Ctrl + O` - Open folder/file\<newline>'' @
    ''- `Cmd/Ctrl + S` - Save current as template\<newline>'' @
    ''- `Cmd/Ctrl + F` - Focus search\<newline>'' @
    ''- `Escape` - Cancel/close modals\<newline>'' @
    ''- Arrow keys - Navigate template list\<newline>'' @
    ''\<newline>'' @
    ''## Benefits\<newline>'' @
    ''- Faster workflow for power users\<newline>'' @
    ''- Reduced mouse usage\<newline>'' @
    ''- More efficient navigation\<newline>'' @
    ''- Better accessibility\<newline>'' @
    ''\<newline>'' @
    ''## Category\<newline>'' @
    ''User Experience\<newline>'' @
    ''\<newline>'' @
    ''## Related\<newline>'' @
    ''See ROADMAP.md for additional context''\<close>

definition body_14 :: string where
  \<open>body_14 =
    ''## Description\<newline>'' @
    ''Add visual previews of templates before use.\<newline>'' @
    ''\<newline>'' @
    ''## Features\<newline>'' @
    ''- Thumbnail/icon preview of template structure\<newline>'' @
    ''- Quick-view popup on hover\<newline>'' @
    ''- Full preview modal\<newline>'' @
    ''- Generated file count and stats\<newline>'' @
    ''\<newline>'' @
    ''## Benefits\<newline>'' @
    ''- Better understanding of templates before use\<newline>'' @
    ''- Visual template browsing\<newline>'' @
    ''- Faster template selection\<newline>'' @
    ''- Improved user experience\<newline>'' @
    ''\<newline>'' @
    ''## Category\<newline>'' @
    ''User Experience\<newline>'' @
    ''\<newline>'' @
    ''## Related\<newline>'' @
    ''See ROADMAP.md for additional context''\<close>

definition body_15 :: string where
  \<open>body_15 =
    ''## Description\<newline>'' @
    ''Monitor schema files for changes and auto-recreate structures on save.\<newline>'' @
    ''\<newline>'' @
    ''## Features\<newline>'' @
    ''- Monitor schema file for changes\<newline>'' @
    ''- Auto-recreate structure on save\<newline>'' @
    ''- Useful for iterating on project templates\<newline>'' @
    ''- Configurable debounce delay\<newline>'' @
    ''\<newline>'' @
    ''## Benefits\<newline>'' @
    ''- Faster template development iteration\<newline>'' @
    ''- Real-time preview of changes\<newline>'' @
    ''- Improved development workflow\<newline>'' @
    ''- Reduced manual re-execution\<newline>'' @
    ''\<newline>'' @
    ''## Category\<newline>'' @
    ''Workflow & Automation\<newline>'' @
    ''\<newline>'' @
    ''## Related\<newline>'' @
    ''See ROADMAP.md for additional context''\<close>

definition body_16 :: string where
  \<open>body_16 =
    ''## Description\<newline>'' @
    ''Enable batch creation operations for multiple structures or locations.\<newline>'' @
    ''\<newline>'' @
    ''## Features\<newline>'' @
    ''- Create same structure in multiple locations\<newline>'' @
    ''- Apply multiple templates sequentially\<newline>'' @
    ''- Variable sets for different configurations\<newline>'' @
    ''- Progress tracking for batch jobs\<newline>'' @
    ''\<newline>'' @
    ''## Benefits\<newline>'' @
    ''- Bulk project setup\<newline>'' @
    ''- Consistent structure across multiple locations\<newline>'' @
    ''- Time savings for large operations\<newline>'' @
    ''- Better support for monorepos\<newline>'' @
    ''\<newline>'' @
    ''## Category\<newline>'' @
    ''Workflow & Automation\<newline>'' @
    ''\<newline>'' @
    ''## Related\<newline>'' @
    ''See ROADMAP.md for additional context''\<close>

definition body_17 :: string where
  \<open>body_17 =
    ''## Description\<newline>'' @
    ''Step-by-step guided template creation and configuration.\<newline>'' @
    ''\<newline>'' @
    ''## Workflow\<newline>'' @
    ''1. Choose base template type\<newline>'' @
    ''2. Answer configuration questions\<newline>'' @
    ''3. Preview generated schema\<newline>'' @
    ''4. Customize if needed\<newline>'' @
    ''5. Create structure\<newline>'' @
    ''\<newline>'' @
    ''## Benefits\<newline>'' @
    ''- Easier for new users\<newline>'' @
    ''- Guided template selection\<newline>'' @
    ''- Reduces errors\<newline>'' @
    ''- Better onboarding experience\<newline>'' @
    ''\<newline>'' @
    ''## Category\<newline>'' @
    ''Workflow & Automation\<newline>'' @
    ''\<newline>'' @
    ''## Related\<newline>'' @
    ''See ROADMAP.md for additional context''\<close>

definition body_18 :: string where
  \<open>body_18 =
    ''## Description\<newline>'' @
    ''Comprehensive validation of schemas before execution.\<newline>'' @
    ''\<newline>'' @
    ''## Features\<newline>'' @
    ''- Validate XML syntax before creation\<newline>'' @
    ''- Check for undefined variable references\<newline>'' @
    ''- Warn about duplicate names\<newline>'' @
    ''- Detect circular template inheritance\<newline>'' @
    ''- Validate URLs before download attempts\<newline>'' @
    ''\<newline>'' @
    ''## Benefits\<newline>'' @
    ''- Catch errors early\<newline>'' @
    ''- Better error messages\<newline>'' @
    ''- Prevents failed executions\<newline>'' @
    ''- Improved reliability\<newline>'' @
    ''\<newline>'' @
    ''## Category\<newline>'' @
    ''Workflow & Automation\<newline>'' @
    ''\<newline>'' @
    ''## Related\<newline>'' @
    ''See ROADMAP.md for additional context''\<close>

definition body_19 :: string where
  \<open>body_19 =
    ''## Description\<newline>'' @
    ''Add comprehensive debugging capabilities for troubleshooting.\<newline>'' @
    ''\<newline>'' @
    ''## Features\<newline>'' @
    ''- Verbose logging of all operations\<newline>'' @
    ''- Step-by-step execution with pauses\<newline>'' @
    ''- Variable substitution visualization\<newline>'' @
    ''- Performance timing for each operation\<newline>'' @
    ''\<newline>'' @
    ''## Benefits\<newline>'' @
    ''- Easier troubleshooting\<newline>'' @
    ''- Better understanding of execution\<newline>'' @
    ''- Performance analysis\<newline>'' @
    ''- Development debugging\<newline>'' @
    ''\<newline>'' @
    ''## Category\<newline>'' @
    ''Workflow & Automation\<newline>'' @
    ''\<newline>'' @
    ''## Related\<newline>'' @
    ''See ROADMAP.md for additional context''\<close>

definition body_20 :: string where
  \<open>body_20 =
    ''## Description\<newline>'' @
    ''Create a community hub for browsing and sharing templates.\<newline>'' @
    ''\<newline>'' @
    ''## Features\<newline>'' @
    ''- Browse community-created templates\<newline>'' @
    ''- Publish templates publicly\<newline>'' @
    ''- Version tracking and changelogs\<newline>'' @
    ''- Ratings and reviews\<newline>'' @
    ''- Download counts\<newline>'' @
    ''- Categories and tags\<newline>'' @
    ''\<newline>'' @
    ''## Benefits\<newline>'' @
    ''- Community template ecosystem\<newline>'' @
    ''- Easy template discovery\<newline>'' @
    ''- Shared knowledge base\<newline>'' @
    ''- Reduced duplicate work\<newline>'' @
    ''\<newline>'' @
    ''## Category\<newline>'' @
    ''Collaboration & Sharing\<newline>'' @
    ''\<newline>'' @
    ''## Related\<newline>'' @
    ''See ROADMAP.md for additional context\<newline>'' @
    ''**Requires**: Template Import/Export feature''\<close>

definition body_21 :: string where
  \<open>body_21 =
    ''## Description\<newline>'' @
    ''Enable teams to share and manage templates collectively.\<newline>'' @
    ''\<newline>'' @
    ''## Features\<newline>'' @
    ''- Shared template storage (local network or cloud)\<newline>'' @
    ''- Organization-level template management\<newline>'' @
    ''- Role-based access controls\<newline>'' @
    ''- Sync across team members\<newline>'' @
    ''- Audit logging\<newline>'' @
    ''\<newline>'' @
    ''## Benefits\<newline>'' @
    ''- Team standardization\<newline>'' @
    ''- Centralized template management\<newline>'' @
    ''- Better collaboration\<newline>'' @
    ''- Consistent project structures\<newline>'' @
    ''\<newline>'' @
    ''## Category\<newline>'' @
    ''Collaboration & Sharing\<newline>'' @
    ''\<newline>'' @
    ''## Related\<newline>'' @
    ''See ROADMAP.md for additional context''\<close>

definition body_22 :: string where
  \<open>body_22 =
    ''## Description\<newline>'' @
    ''Store and version templates in Git repositories.\<newline>'' @
    ''\<newline>'' @
    ''## Features\<newline>'' @
    ''- Store templates in Git repository\<newline>'' @
    ''- Version history for templates\<newline>'' @
    ''- Branch-based template variants\<newline>'' @
    ''- Pull updates from remote\<newline>'' @
    ''\<newline>'' @
    ''## Benefits\<newline>'' @
    ''- Version control for templates\<newline>'' @
    ''- Easy collaboration through Git\<newline>'' @
    ''- Backup and history\<newline>'' @
    ''- Standard Git workflows\<newline>'' @
    ''\<newline>'' @
    ''## Category\<newline>'' @
    ''Collaboration & Sharing\<newline>'' @
    ''\<newline>'' @
    ''## Related\<newline>'' @
    ''See ROADMAP.md for additional context''\<close>

definition body_23 :: string where
  \<open>body_23 =
    ''## Description\<newline>'' @
    ''Deep integration with GitHub and GitLab platforms.\<newline>'' @
    ''\<newline>'' @
    ''## Features\<newline>'' @
    ''- Create repository + structure in one action\<newline>'' @
    ''- Use GitHub repo as template source\<newline>'' @
    ''- Sync templates with GitHub Gists\<newline>'' @
    ''- GitHub Actions integration\<newline>'' @
    ''\<newline>'' @
    ''## Benefits\<newline>'' @
    ''- Streamlined repository creation\<newline>'' @
    ''- Template hosting on GitHub\<newline>'' @
    ''- Automated workflows\<newline>'' @
    ''- Better developer experience\<newline>'' @
    ''\<newline>'' @
    ''## Category\<newline>'' @
    ''Collaboration & Sharing\<newline>'' @
    ''\<newline>'' @
    ''## Related\<newline>'' @
    ''See ROADMAP.md for additional context''\<close>

definition body_24 :: string where
  \<open>body_24 =
    ''## Description\<newline>'' @
    ''Analyze folder structures to suggest template types and relevant variables.\<newline>'' @
    ''\<newline>'' @
    ''## Features\<newline>'' @
    ''- Analyze folder structure to suggest template type\<newline>'' @
    ''- Detect frameworks (React, Vue, Django, etc.)\<newline>'' @
    ''- Suggest relevant variables\<newline>'' @
    ''- Auto-populate common patterns\<newline>'' @
    ''\<newline>'' @
    ''## Benefits\<newline>'' @
    ''- Intelligent template suggestions\<newline>'' @
    ''- Faster template creation\<newline>'' @
    ''- Framework-aware recommendations\<newline>'' @
    ''- Reduced manual configuration\<newline>'' @
    ''\<newline>'' @
    ''## Category\<newline>'' @
    ''Advanced File Operations\<newline>'' @
    ''\<newline>'' @
    ''## Related\<newline>'' @
    ''See ROADMAP.md for additional context''\<close>

definition body_25 :: string where
  \<open>body_25 =
    ''## Description\<newline>'' @
    ''Generate various types of binary and data files.\<newline>'' @
    ''\<newline>'' @
    ''## Features\<newline>'' @
    ''- Generate placeholder images with custom dimensions/colors\<newline>'' @
    ''- Create empty SQLite databases with defined schema\<newline>'' @
    ''- Generate sample data files (JSON, CSV)\<newline>'' @
    ''- Create stub binary files for testing\<newline>'' @
    ''\<newline>'' @
    ''## Benefits\<newline>'' @
    ''- Complete project scaffolding\<newline>'' @
    ''- Test data generation\<newline>'' @
    ''- Placeholder assets\<newline>'' @
    ''- Full project setup automation\<newline>'' @
    ''\<newline>'' @
    ''## Category\<newline>'' @
    ''Advanced File Operations\<newline>'' @
    ''\<newline>'' @
    ''## Related\<newline>'' @
    ''See ROADMAP.md for additional context''\<close>

definition body_26 :: string where
  \<open>body_26 =
    ''## Description\<newline>'' @
    ''Compare folder structures and templates visually.\<newline>'' @
    ''\<newline>'' @
    ''## Features\<newline>'' @
    ''- Compare two folder structures visually\<newline>'' @
    ''- Compare two templates side-by-side\<newline>'' @
    ''- Highlight differences\<newline>'' @
    ''- Merge capabilities\<newline>'' @
    ''\<newline>'' @
    ''## Benefits\<newline>'' @
    ''- Easy structure analysis\<newline>'' @
    ''- Template comparison\<newline>'' @
    ''- Migration planning\<newline>'' @
    ''- Better understanding of changes\<newline>'' @
    ''\<newline>'' @
    ''## Category\<newline>'' @
    ''Advanced File Operations\<newline>'' @
    ''\<newline>'' @
    ''## Related\<newline>'' @
    ''See ROADMAP.md for additional context''\<close>

definition body_27 :: string where
  \<open>body_27 =
    ''## Description\<newline>'' @
    ''Create an extensible plugin system for custom functionality.\<newline>'' @
    ''\<newline>'' @
    ''## Example\<newline>'' @
    ''```javascript\<newline>'' @
    ''// plugins/license-header.js\<newline>'' @
    ''export default {\<newline>'' @
    ''  name: 'license-header',\<newline>'' @
    ''  fileTypes: ['.ts', '.js'],\<newline>'' @
    ''  process(content, variables, filePath) {\<newline>'' @
    ''    const header = `// Copyright ${variables.YEAR} ${variables.AUTHOR}'' @ [CHR 0x5C] @ ''n// Licensed under MIT'' @ [CHR 0x5C] @ ''n'' @ [CHR 0x5C] @ ''n`;'' @ ''\<newline>'' @
    ''    return header + content;\<newline>'' @
    ''  }\<newline>'' @
    ''};\<newline>'' @
    ''```\<newline>'' @
    ''\<newline>'' @
    ''## Plugin Capabilities\<newline>'' @
    ''- Custom file processors\<newline>'' @
    ''- Variable transformers\<newline>'' @
    ''- Schema validators\<newline>'' @
    ''- Post-creation hooks\<newline>'' @
    ''- UI extensions\<newline>'' @
    ''\<newline>'' @
    ''## Benefits\<newline>'' @
    ''- Extensible architecture\<newline>'' @
    ''- Community plugins\<newline>'' @
    ''- Custom workflows\<newline>'' @
    ''- Integration possibilities\<newline>'' @
    ''\<newline>'' @
    ''## Category\<newline>'' @
    ''Developer Features\<newline>'' @
    ''\<newline>'' @
    ''## Related\<newline>'' @
    ''See ROADMAP.md for additional context''\<close>

definition body_28 :: string where
  \<open>body_28 =
    ''## Description\<newline>'' @
    ''Expose Structure Creator functionality as a library/SDK.\<newline>'' @
    ''\<newline>'' @
    ''## Example\<newline>'' @
    ''```typescript\<newline>'' @
    ''import { StructureCreator } from 'structure-creator';\<newline>'' @
    ''\<newline>'' @
    ''const creator = new StructureCreator();\<newline>'' @
    ''const tree = await creator.parseSchema(xmlContent);\<newline>'' @
    ''await creator.create(tree, '/output/path', {\<newline>'' @
    ''  variables: { NAME: 'MyProject' }\<newline>'' @
    ''});\<newline>'' @
    ''```\<newline>'' @
    ''\<newline>'' @
    ''## Benefits\<newline>'' @
    ''- Programmatic usage\<newline>'' @
    ''- Integration into other tools\<newline>'' @
    ''- Custom automation\<newline>'' @
    ''- Library ecosystem\<newline>'' @
    ''\<newline>'' @
    ''## Category\<newline>'' @
    ''Developer Features\<newline>'' @
    ''\<newline>'' @
    ''## Related\<newline>'' @
    ''See ROADMAP.md for additional context''\<close>

definition body_29 :: string where
  \<open>body_29 =
    ''## Description\<newline>'' @
    ''Add ability to undo/redo structure creation operations.\<newline>'' @
    ''\<newline>'' @
    ''## Features\<newline>'' @
    ''- Revert last created structure\<newline>'' @
    ''- Multi-level undo history\<newline>'' @
    ''- Confirmation for destructive undos\<newline>'' @
    ''- Session-based history\<newline>'' @
    ''\<newline>'' @
    ''## Benefits\<newline>'' @
    ''- Safety net for mistakes\<newline>'' @
    ''- Easier experimentation\<newline>'' @
    ''- Confidence in operations\<newline>'' @
    ''- Better user experience\<newline>'' @
    ''\<newline>'' @
    ''## Category\<newline>'' @
    ''Quality of Life\<newline>'' @
    ''\<newline>'' @
    ''## Related\<newline>'' @
    ''See ROADMAP.md for additional context''\<close>

definition body_30 :: string where
  \<open>body_30 =
    ''## Description\<newline>'' @
    ''Pin frequently-used templates to a quick access favorites bar.\<newline>'' @
    ''\<newline>'' @
    ''## Features\<newline>'' @
    ''- Pin most-used templates to top bar\<newline>'' @
    ''- Quick access with single click\<newline>'' @
    ''- Drag to reorder\<newline>'' @
    ''- Customizable slots\<newline>'' @
    ''\<newline>'' @
    ''## Benefits\<newline>'' @
    ''- Faster access to common templates\<newline>'' @
    ''- Customizable workflow\<newline>'' @
    ''- Improved efficiency\<newline>'' @
    ''- Better organization\<newline>'' @
    ''\<newline>'' @
    ''## Category\<newline>'' @
    ''Quality of Life\<newline>'' @
    ''\<newline>'' @
    ''## Related\<newline>'' @
    ''See ROADMAP.md for additional context''\<close>

definition body_31 :: string where
  \<open>body_31 =
    ''## Description\<newline>'' @
    ''Track and display usage statistics and insights.\<newline>'' @
    ''\<newline>'' @
    ''## Features\<newline>'' @
    ''- Templates created over time\<newline>'' @
    ''- Most-used templates chart\<newline>'' @
    ''- Total structures generated\<newline>'' @
    ''- Files/folders created totals\<newline>'' @
    ''- Usage trends\<newline>'' @
    ''\<newline>'' @
    ''## Benefits\<newline>'' @
    ''- Usage insights\<newline>'' @
    ''- Template popularity data\<newline>'' @
    ''- Activity tracking\<newline>'' @
    ''- Productivity metrics\<newline>'' @
    ''\<newline>'' @
    ''## Category\<newline>'' @
    ''Quality of Life\<newline>'' @
    ''\<newline>'' @
    ''## Related\<newline>'' @
    ''See ROADMAP.md for additional context''\<close>

definition body_32 :: string where
  \<open>body_32 =
    ''## Description\<newline>'' @
    ''Add internationalization support for multiple languages.\<newline>'' @
    ''\<newline>'' @
    ''## Languages\<newline>'' @
    ''- English (default)\<newline>'' @
    ''- Spanish\<newline>'' @
    ''- French\<newline>'' @
    ''- German\<newline>'' @
    ''- Japanese\<newline>'' @
    ''- Chinese\<newline>'' @
    ''- Community translations\<newline>'' @
    ''\<newline>'' @
    ''## Benefits\<newline>'' @
    ''- Global accessibility\<newline>'' @
    ''- Wider user base\<newline>'' @
    ''- Better user experience\<newline>'' @
    ''- Community contributions\<newline>'' @
    ''\<newline>'' @
    ''## Category\<newline>'' @
    ''Quality of Life\<newline>'' @
    ''\<newline>'' @
    ''## Related\<newline>'' @
    ''See ROADMAP.md for additional context''\<close>

definition body_33 :: string where
  \<open>body_33 =
    ''## Description\<newline>'' @
    ''Add customizable themes and color schemes.\<newline>'' @
    ''\<newline>'' @
    ''## Features\<newline>'' @
    ''- Theme editor/creator\<newline>'' @
    ''- Import/export themes\<newline>'' @
    ''- Community theme gallery\<newline>'' @
    ''- Per-template color coding\<newline>'' @
    ''- Syntax highlighting themes for XML\<newline>'' @
    ''\<newline>'' @
    ''## Benefits\<newline>'' @
    ''- Personalization\<newline>'' @
    ''- Better aesthetics\<newline>'' @
    ''- Accessibility (dark mode, high contrast)\<newline>'' @
    ''- User preference support\<newline>'' @
    ''\<newline>'' @
    ''## Category\<newline>'' @
    ''Quality of Life\<newline>'' @
    ''\<newline>'' @
    ''## Related\<newline>'' @
    ''See ROADMAP.md for additional context''\<close>

definition body_34 :: string where
  \<open>body_34 =
    ''## Description\<newline>'' @
    ''Create a VS Code extension for Structure Creator.\<newline>'' @
    ''\<newline>'' @
    ''## Features\<newline>'' @
    ''- Create structures from command palette\<newline>'' @
    ''- Right-click folder to scan as template\<newline>'' @
    ''- Template browser sidebar\<newline>'' @
    ''- Schema syntax highlighting\<newline>'' @
    ''- IntelliSense for variables\<newline>'' @
    ''\<newline>'' @
    ''## Benefits\<newline>'' @
    ''- Seamless VS Code integration\<newline>'' @
    ''- Better developer workflow\<newline>'' @
    ''- IDE-native experience\<newline>'' @
    ''- Increased adoption\<newline>'' @
    ''\<newline>'' @
    ''## Category\<newline>'' @
    ''Integration\<newline>'' @
    ''\<newline>'' @
    ''## Related\<newline>'' @
    ''See ROADMAP.md for additional context''\<close>

definition body_35 :: string where
  \<open>body_35 =
    ''## Description\<newline>'' @
    ''Create plugins for JetBrains IDEs (IntelliJ, WebStorm, PyCharm, etc.).\<newline>'' @
    ''\<newline>'' @
    ''## Features\<newline>'' @
    ''- Similar functionality to VS Code extension\<newline>'' @
    ''- Project template integration\<newline>'' @
    ''- Tool window for template management\<newline>'' @
    ''- IDE-specific optimizations\<newline>'' @
    ''\<newline>'' @
    ''## Benefits\<newline>'' @
    ''- JetBrains IDE support\<newline>'' @
    ''- Wider IDE coverage\<newline>'' @
    ''- Better developer experience\<newline>'' @
    ''- Increased adoption\<newline>'' @
    ''\<newline>'' @
    ''## Category\<newline>'' @
    ''Integration\<newline>'' @
    ''\<newline>'' @
    ''## Related\<newline>'' @
    ''See ROADMAP.md for additional context''\<close>

definition body_36 :: string where
  \<open>body_36 =
    ''## Description\<newline>'' @
    ''Enable creating structures directly in cloud storage services.\<newline>'' @
    ''\<newline>'' @
    ''## Supported Services\<newline>'' @
    ''- Dropbox\<newline>'' @
    ''- Google Drive\<newline>'' @
    ''- OneDrive\<newline>'' @
    ''- iCloud Drive\<newline>'' @
    ''\<newline>'' @
    ''## Features\<newline>'' @
    ''- Create structures directly in cloud storage\<newline>'' @
    ''- Sync templates across devices\<newline>'' @
    ''- Cloud-based template libraries\<newline>'' @
    ''- Cross-platform synchronization\<newline>'' @
    ''\<newline>'' @
    ''## Benefits\<newline>'' @
    ''- Cloud workflow support\<newline>'' @
    ''- Device synchronization\<newline>'' @
    ''- Remote structure creation\<newline>'' @
    ''- Backup capabilities\<newline>'' @
    ''\<newline>'' @
    ''## Category\<newline>'' @
    ''Integration\<newline>'' @
    ''\<newline>'' @
    ''## Related\<newline>'' @
    ''See ROADMAP.md for additional context''\<close>

definition body_37 :: string where
  \<open>body_37 =
    ''## Description\<newline>'' @
    ''Add webhook support for remote triggering and integrations.\<newline>'' @
    ''\<newline>'' @
    ''## Features\<newline>'' @
    ''- Trigger creation via HTTP webhook\<newline>'' @
    ''- Integration with automation tools (Zapier, n8n)\<newline>'' @
    ''- Slack/Discord notifications on creation\<newline>'' @
    ''- CI/CD pipeline triggers\<newline>'' @
    ''\<newline>'' @
    ''## Benefits\<newline>'' @
    ''- Automation integrations\<newline>'' @
    ''- Event-driven workflows\<newline>'' @
    ''- Team notifications\<newline>'' @
    ''- External tool integration\<newline>'' @
    ''\<newline>'' @
    ''## Category\<newline>'' @
    ''Integration\<newline>'' @
    ''\<newline>'' @
    ''## Related\<newline>'' @
    ''See ROADMAP.md for additional context''\<close>

definition ISSUES :: "issue list" where
  \<open>ISSUES = [
    \<lparr>title = ''Visual Schema Editor'', body = body_01\<rparr>,
    \<lparr>title = ''CLI Interface'', body = body_02\<rparr>,
    \<lparr>title = ''Conditional Logic in Schemas'', body = body_03\<rparr>,
    \<lparr>title = ''Template Import/Export'', body = body_04\<rparr>,
    \<lparr>title = ''Post-Creation Hooks'', body = body_05\<rparr>,
    \<lparr>title = ''Repeater/Loop Syntax'', body = body_06\<rparr>,
    \<lparr>title = ''Variable Types & Transformations'', body = body_07\<rparr>,
    \<lparr>title = ''Template Inheritance'', body = body_08\<rparr>,
    \<lparr>title = ''File Content Templates'', body = body_09\<rparr>,
    \<lparr>title = ''Diff Preview for Dry Run'', body = body_10\<rparr>,
    \<lparr>title = ''Template Search & Tags'', body = body_11\<rparr>,
    \<lparr>title = ''Recent Projects History'', body = body_12\<rparr>,
    \<lparr>title = ''Keyboard Shortcuts'', body = body_13\<rparr>,
    \<lparr>title = ''Template Previews'', body = body_14\<rparr>,
    \<lparr>title = ''Watch Mode'', body = body_15\<rparr>,
    \<lparr>title = ''Batch Operations'', body = body_16\<rparr>,
    \<lparr>title = ''Template Wizards'', body = body_17\<rparr>,
    \<lparr>title = ''Schema Validation'', body = body_18\<rparr>,
    \<lparr>title = ''Debug Mode'', body = body_19\<rparr>,
    \<lparr>title = ''Template Hub / Registry'', body = body_20\<rparr>,
    \<lparr>title = ''Team Template Libraries'', body = body_21\<rparr>,
    \<lparr>title = ''Git Integration for Templates'', body = body_22\<rparr>,
    \<lparr>title = ''GitHub/GitLab Integration'', body = body_23\<rparr>,
    \<lparr>title = ''Smart File Detection'', body = body_24\<rparr>,
    \<lparr>title = ''Binary File Generation'', body = body_25\<rparr>,
    \<lparr>title = ''Structure Comparison'', body = body_26\<rparr>,
    \<lparr>title = ''Plugin System'', body = body_27\<rparr>,
    \<lparr>title = ''API/SDK'', body = body_28\<rparr>,
    \<lparr>title = ''Undo/Redo Operations'', body = body_29\<rparr>,
    \<lparr>title = ''Favorites Bar'', body = body_30\<rparr>,
    \<lparr>title = ''Statistics Dashboard'', body = body_31\<rparr>,
    \<lparr>title = ''Multi-Language Support (i18n)'', body = body_32\<rparr>,
    \<lparr>title = ''Custom Themes'', body = body_33\<rparr>,
    \<lparr>title = ''VS Code Extension'', body = body_34\<rparr>,
    \<lparr>title = ''JetBrains Plugin'', body = body_35\<rparr>,
    \<lparr>title = ''Cloud Storage Integration'', body = body_36\<rparr>,
    \<lparr>title = ''Webhook Support'', body = body_37\<rparr>]\<close>

section \<open>The world the script runs in\<close>

text \<open>
  A JSON document, as \<^verbatim>\<open>json.dumps\<close> takes it and \<^verbatim>\<open>json.loads\<close> returns it. An
  object holds the items of the Python dict in insertion order. The script never looks
  inside a number; \<open>JNumber\<close> stands for integers, as issue numbers are.
\<close>

datatype json =
    JNull
  | JBool bool
  | JNumber int
  | JString string
  | JArray "json list"
  | JObject "(string \<times> json) list"

datatype http_method = GET | POST

text \<open>
  A \<^verbatim>\<open>urllib.request.Request\<close>. The field \<open>data\<close> is the document whose
  \<^verbatim>\<open>json.dumps(...).encode('utf-8')\<close> the script passes (\<open>None\<close> when it passes no
  data); \<open>headers\<close> are the items of the headers dict in insertion order.
\<close>

record request =
  url :: string
  data :: "json option"
  headers :: "(string \<times> string) list"
  http_method :: http_method

text \<open>
  What \<^verbatim>\<open>read().decode('utf-8')\<close> does on the body of a response or of an
  \<^verbatim>\<open>HTTPError\<close>: it returns the text, or it raises (the bytes are not UTF-8, or the
  connection fails while the body is read), kept with the exception's message.
\<close>

datatype content =
    Text string
  | ReadError string

text \<open>
  What one call of \<^verbatim>\<open>urllib.request.urlopen\<close> does: it returns a response (status and
  body), it raises \<^verbatim>\<open>urllib.error.HTTPError\<close> (code and error body), or it raises another
  exception (\<^verbatim>\<open>URLError\<close>, a socket error, ...), kept with its message.
\<close>

datatype response =
    Response nat content
  | HTTPError nat content
  | Raised string

text \<open>
  Everything a run reads from outside: \<^verbatim>\<open>sys.argv\<close>, \<^verbatim>\<open>os.environ\<close>, the line that
  \<^verbatim>\<open>input()\<close> returns (a closed standard input is outside the model), the network and
  the library's JSON parser (\<open>None\<close> when \<^verbatim>\<open>json.loads\<close> raises). The answer of the
  network may depend on the request and on how many requests the run has sent before it.
\<close>

record world =
  argv :: "string list"
  environ :: "string \<Rightarrow> string option"
  stdin_line :: string
  urlopen :: "nat \<Rightarrow> request \<Rightarrow> response"
  json_loads :: "string \<Rightarrow> json option"

text \<open>What the handler \<^verbatim>\<open>except Exception\<close> of \<^verbatim>\<open>create_issue\<close> caught.\<close>

datatype failure =
    Transport string
  | Unreadable string
  | JSONDecodeError
  | KeyError string
  | TypeError

text \<open>
  The lines the script prints, one constructor per print statement or block of fixed
  print statements: \<open>Header n\<close> is the banner with the repository and the total,
  \<open>TokenRequired\<close> the three lines before the prompt and the prompt itself,
  \<open>Summary\<close> the summary block (its failure line is printed only for a positive
  count).
\<close>

datatype line =
    Header nat
  | TokenRequired
  | NoTokenProvided
  | CheckingAccess
  | LabelExists
  | LabelCreated
  | LabelCreateWarning nat
  | LabelCheckWarning nat
  | Creating nat
  | Progress nat nat
  | Created string json
  | FailedHTTP string nat string
  | FailedOther string failure
  | Summary nat nat
  | ViewIssues

text \<open>The effects of a run so far: the requests sent, each with its answer, and the output.\<close>

record state =
  sent :: "(request \<times> response) list"
  out :: "line list"

definition init :: state where
  "init = \<lparr>sent = [], out = []\<rparr>"

definition print :: "line \<Rightarrow> state \<Rightarrow> state" where
  "print l s = s\<lparr>out := out s @ [l]\<rparr>"

text \<open>One call of \<^verbatim>\<open>urlopen\<close>: the world answers, and the exchange is recorded.\<close>

definition call_urlopen :: "world \<Rightarrow> request \<Rightarrow> state \<Rightarrow> response \<times> state" where
  "call_urlopen w req s =
     (let answer = urlopen w (length (sent s)) req
      in (answer, s\<lparr>sent := sent s @ [(req, answer)]\<rparr>))"

text \<open>An exception that leaves a function of the script.\<close>

datatype exn =
    SystemExit nat
  | Exception string

section \<open>The credential resolver\<close>

text \<open>
  \<^verbatim>\<open>str.strip()\<close> removes leading and trailing whitespace. \<open>isspace\<close> lists the
  characters below U+0100 that Python counts as whitespace.
\<close>

definition isspace :: "char \<Rightarrow> bool" where
  "isspace c = (of_char c \<in> {9, 10, 11, 12, 13, 28, 29, 30, 31, 32, 133, 160 :: nat})"

definition strip :: "string \<Rightarrow> string" where
  "strip s = rev (dropWhile isspace (rev (dropWhile isspace s)))"

text \<open>
  The block under \<^verbatim>\<open># Prompt user\<close>: the answer of \<^verbatim>\<open>input()\<close> is stripped, and
  an empty result ends the process with \<^verbatim>\<open>sys.exit(1)\<close>.
\<close>

definition prompt_user :: "world \<Rightarrow> state \<Rightarrow> (exn + string) \<times> state" where
  "prompt_user w s =
     (let s1 = print TokenRequired s;
          token = strip (stdin_line w)
      in if token = [] then (Inl (SystemExit 1), print NoTokenProvided s1)
         else (Inr token, s1))"

text \<open>
  \<^verbatim>\<open>if len(sys.argv) > 1: return sys.argv[1]\<close>; then
  \<^verbatim>\<open>token = os.environ.get('GITHUB_TOKEN')\<close> with \<^verbatim>\<open>if token: return token\<close>, which
  passes over a variable that is unset or empty; then the prompt.
\<close>

definition get_github_token :: "world \<Rightarrow> state \<Rightarrow> (exn + string) \<times> state" where
  "get_github_token w s =
     (if length (argv w) > 1 then (Inr (argv w ! 1), s)
      else
        (case environ w ''GITHUB_TOKEN'' of
           Some token \<Rightarrow> if token \<noteq> [] then (Inr token, s) else prompt_user w s
         | None \<Rightarrow> prompt_user w s))"

section \<open>The label ensurer\<close>

definition api_headers :: "string \<Rightarrow> (string \<times> string) list" where
  "api_headers token =
     [(''Authorization'', ''token '' @ token),
      (''Accept'', ''application/vnd.github.v3+json'')]"

definition label_url :: string where
  "label_url = ''https://api.github.com/repos/'' @ REPO_OWNER @ ''/'' @ REPO_NAME @ ''/labels/feature''"

definition create_url :: string where
  "create_url = ''https://api.github.com/repos/'' @ REPO_OWNER @ ''/'' @ REPO_NAME @ ''/labels''"

definition label_req :: "string \<Rightarrow> request" where
  "label_req token =
     \<lparr>url = label_url, data = None, headers = api_headers token, http_method = GET\<rparr>"

definition create_req :: "string \<Rightarrow> request" where
  "create_req token =
     \<lparr>url = create_url,
      data = Some (JObject
        [(''name'', JString ''feature''),
         (''description'', JString ''New feature or enhancement''),
         (''color'', JString ''0E8A16'')]),
      headers = api_headers token @ [(''Content-Type'', ''application/json'')],
      http_method = POST\<rparr>"

text \<open>
  Both \<^verbatim>\<open>try\<close> statements of \<^verbatim>\<open>check_and_create_label\<close> have the single handler
  \<^verbatim>\<open>except urllib.error.HTTPError\<close>: any other exception of \<^verbatim>\<open>urlopen\<close> leaves the
  function.
\<close>

definition check_and_create_label :: "world \<Rightarrow> string \<Rightarrow> state \<Rightarrow> (exn + unit) \<times> state" where
  "check_and_create_label w token s =
     (case call_urlopen w (label_req token) s of
        (Response code text, s1) \<Rightarrow> (Inr (), print LabelExists s1)
      | (HTTPError code text, s1) \<Rightarrow>
          (if code = 404 then
             (case call_urlopen w (create_req token) s1 of
                (Response code' text', s2) \<Rightarrow> (Inr (), print LabelCreated s2)
              | (HTTPError code' text', s2) \<Rightarrow> (Inr (), print (LabelCreateWarning code') s2)
              | (Raised msg, s2) \<Rightarrow> (Inl (Exception msg), s2))
           else (Inr (), print (LabelCheckWarning code) s1))
      | (Raised msg, s1) \<Rightarrow> (Inl (Exception msg), s1))"

section \<open>The issue publisher\<close>

definition issues_url :: string where
  "issues_url = ''https://api.github.com/repos/'' @ REPO_OWNER @ ''/'' @ REPO_NAME @ ''/issues''"

definition issue_req :: "string \<Rightarrow> string \<Rightarrow> string \<Rightarrow> request" where
  "issue_req token title' body' =
     \<lparr>url = issues_url,
      data = Some (JObject
        [(''title'', JString title'),
         (''body'', JString body'),
         (''labels'', JArray [JString ''feature''])]),
      headers =
        [(''Authorization'', ''token '' @ token),
         (''Accept'', ''application/vnd.github.v3+json''),
         (''Content-Type'', ''application/json'')],
      http_method = POST\<rparr>"

text \<open>
  \<^verbatim>\<open>result['number']\<close>: a dict without the key raises \<^verbatim>\<open>KeyError\<close>, a document that
  is not a dict raises \<^verbatim>\<open>TypeError\<close>.
\<close>

fun subscript :: "json \<Rightarrow> string \<Rightarrow> failure + json" where
  "subscript (JObject items) key =
     (case map_of items key of None \<Rightarrow> Inl (KeyError key) | Some v \<Rightarrow> Inr v)"
| "subscript _ key = Inl TypeError"

text \<open>
  \<^verbatim>\<open>create_issue\<close>: the \<^verbatim>\<open>try\<close> block calls \<^verbatim>\<open>urlopen\<close>, reads and decodes the body,
  parses it and reads \<^verbatim>\<open>result['number']\<close>. \<^verbatim>\<open>HTTPError\<close> has its own handler; every
  other exception of the block reaches \<^verbatim>\<open>except Exception\<close>. The \<^verbatim>\<open>HTTPError\<close> handler
  starts with \<^verbatim>\<open>error_body = e.read().decode('utf-8')\<close>, before it prints: an exception
  raised there is inside no \<^verbatim>\<open>try\<close> block, so it leaves the function. Otherwise both
  handlers return \<^verbatim>\<open>False\<close>.
\<close>

definition create_issue :: "world \<Rightarrow> string \<Rightarrow> string \<Rightarrow> string \<Rightarrow> state \<Rightarrow> (exn + bool) \<times> state" where
  "create_issue w token title' body' s =
     (case call_urlopen w (issue_req token title' body') s of
        (Response code (Text payload), s1) \<Rightarrow>
          (case json_loads w payload of
             None \<Rightarrow> (Inr False, print (FailedOther title' JSONDecodeError) s1)
           | Some result \<Rightarrow>
               (case subscript result ''number'' of
                  Inl e \<Rightarrow> (Inr False, print (FailedOther title' e) s1)
                | Inr number \<Rightarrow> (Inr True, print (Created title' number) s1)))
      | (Response code (ReadError msg), s1) \<Rightarrow>
          (Inr False, print (FailedOther title' (Unreadable msg)) s1)
      | (HTTPError code (Text error_body), s1) \<Rightarrow>
          (Inr False, print (FailedHTTP title' code error_body) s1)
      | (HTTPError code (ReadError msg), s1) \<Rightarrow> (Inl (Exception msg), s1)
      | (Raised msg, s1) \<Rightarrow> (Inr False, print (FailedOther title' (Transport msg)) s1))"

text \<open>
  The \<^verbatim>\<open>for\<close> loop of \<^verbatim>\<open>main\<close> over \<^verbatim>\<open>enumerate(ISSUES, 1)\<close>, with the two counters
  and the effects as its accumulator; \<open>n\<close> is \<^verbatim>\<open>len(ISSUES)\<close>. The loop has no handler:
  an exception that leaves \<^verbatim>\<open>create_issue\<close> ends it, and the result holds the exception
  with the counters and effects at that point.
\<close>

fun create_all :: "world \<Rightarrow> string \<Rightarrow> nat \<Rightarrow> nat \<Rightarrow> issue list \<Rightarrow> nat \<times> nat \<times> state \<Rightarrow> exn option \<times> nat \<times> nat \<times> state" where
  "create_all w token n i [] acc = (None, acc)"
| "create_all w token n i (issue # rest) (success_count, failed_count, s) =
     (case create_issue w token (title issue) (body issue) (print (Progress i n) s) of
        (Inl e, s1) \<Rightarrow> (Some e, success_count, failed_count, s1)
      | (Inr ok, s1) \<Rightarrow>
          create_all w token n (Suc i) rest
            (if ok then (Suc success_count, failed_count, s1)
             else (success_count, Suc failed_count, s1)))"

section \<open>The process\<close>

datatype outcome =
    Exit nat
  | Uncaught string

text \<open>
  How the interpreter ends the process on an exception that leaves \<^verbatim>\<open>main\<close>:
  \<^verbatim>\<open>SystemExit\<close> gives its status, any other exception a traceback.
\<close>

fun ends :: "exn \<Rightarrow> outcome" where
  "ends (SystemExit status) = Exit status"
| "ends (Exception msg) = Uncaught msg"

text \<open>The exit status the shell sees: an uncaught exception gives status 1.\<close>

fun exit_status :: "outcome \<Rightarrow> nat" where
  "exit_status (Exit status) = status"
| "exit_status (Uncaught msg) = 1"

record run =
  outcome :: outcome
  final :: state
  success_count :: nat
  failed_count :: nat

text \<open>
  \<^verbatim>\<open>main\<close> over a list of drafts. A run that ends before the loop leaves both
  counters at their initial value; a run that an exception ends inside the loop prints no
  summary and leaves the counters as they were.
\<close>

definition main_with :: "issue list \<Rightarrow> world \<Rightarrow> run" where
  "main_with issues w =
     (let n = length issues in
      case get_github_token w (print (Header n) init) of
        (Inl e, s1) \<Rightarrow>
          \<lparr>outcome = ends e, final = s1, success_count = 0, failed_count = 0\<rparr>
      | (Inr token, s1) \<Rightarrow>
          (case check_and_create_label w token (print CheckingAccess s1) of
             (Inl e, s2) \<Rightarrow>
               \<lparr>outcome = ends e, final = s2, success_count = 0, failed_count = 0\<rparr>
           | (Inr u, s2) \<Rightarrow>
               (case create_all w token n 1 issues (0, 0, print (Creating n) s2) of
                  (Some e, succeeded, failed, s3) \<Rightarrow>
                    \<lparr>outcome = ends e, final = s3,
                     success_count = succeeded, failed_count = failed\<rparr>
                | (None, succeeded, failed, s3) \<Rightarrow>
                    \<lparr>outcome = (if failed > 0 then Exit 1 else Exit 0),
                     final = print ViewIssues (print (Summary succeeded failed) s3),
                     success_count = succeeded,
                     failed_count = failed\<rparr>)))"

definition main :: "world \<Rightarrow> run" where
  "main w = main_with ISSUES w"

section \<open>Notions used to state the properties\<close>

text \<open>
  A create-issue request succeeds when \<^verbatim>\<open>urlopen\<close> returns and the body is a JSON object with
  the key \<^verbatim>\<open>number\<close>: the issue was created and its number came back.
\<close>

definition request_succeeded :: "world \<Rightarrow> response \<Rightarrow> bool" where
  "request_succeeded w answer =
     (case answer of
        Response code (Text payload) \<Rightarrow>
          (case json_loads w payload of
             Some (JObject items) \<Rightarrow> ''number'' \<in> fst ` set items
           | _ \<Rightarrow> False)
      | _ \<Rightarrow> False)"

text \<open>
  The answers on which the \<^verbatim>\<open>HTTPError\<close> handler of \<^verbatim>\<open>create_issue\<close> raises: an error
  status whose body cannot be read or decoded.
\<close>

definition handler_raises :: "response \<Rightarrow> bool" where
  "handler_raises answer =
     (case answer of HTTPError code (ReadError msg) \<Rightarrow> True | _ \<Rightarrow> False)"

text \<open>The exchanges of a run with the issues endpoint, in the order they happened.\<close>

definition issue_exchanges :: "run \<Rightarrow> (request \<times> response) list" where
  "issue_exchanges r = filter (\<lambda>x. url (fst x) = issues_url) (sent (final r))"

text \<open>
  The requests \<^verbatim>\<open>check_and_create_label\<close> sends when it starts in state \<open>s\<close>, in order.
\<close>

definition label_requests :: "world \<Rightarrow> string \<Rightarrow> state \<Rightarrow> request list" where
  "label_requests w token s =
     drop (length (sent s)) (map fst (sent (snd (check_and_create_label w token s))))"

subsection \<open>Example runs\<close>

text \<open>
  A parser that knows one body, and a world built from the command-line arguments after the
  script's name, the value of \<^verbatim>\<open>GITHUB_TOKEN\<close>, the answer to the prompt and the answers of
  the network by position.
\<close>

definition example_loads :: "string \<Rightarrow> json option" where
  \<open>example_loads payload =
     (if payload = ''{"number": 7}'' then Some (JObject [(''number'', JNumber 7)]) else None)\<close>

definition example_world :: "string list \<Rightarrow> string option \<Rightarrow> string \<Rightarrow> (nat \<Rightarrow> response) \<Rightarrow> world" where
  "example_world args env answer net =
     \<lparr>argv = ''create-roadmap-issues.py'' # args,
      environ = (\<lambda>name. if name = ''GITHUB_TOKEN'' then env else None),
      stdin_line = answer,
      urlopen = (\<lambda>k req. net k),
      json_loads = example_loads\<rparr>"

definition three_drafts :: "issue list" where
  "three_drafts =
     [\<lparr>title = ''one'', body = ''first''\<rparr>,
      \<lparr>title = ''two'', body = ''second''\<rparr>,
      \<lparr>title = ''three'', body = ''third''\<rparr>]"

text \<open>
  Answers of the network by position. The label exists and every issue is created but the
  second, which is refused; the label is missing and everything else succeeds; every request
  is refused for bad credentials; no request gets through.
\<close>

definition second_is_refused :: "nat \<Rightarrow> response" where
  \<open>second_is_refused k =
     (if k = 0 then Response 200 (Text ''{"name": "feature"}'')
      else if k = 2 then HTTPError 422 (Text ''Validation Failed'')
      else Response 201 (Text ''{"number": 7}''))\<close>

definition label_is_missing :: "nat \<Rightarrow> response" where
  \<open>label_is_missing k =
     (if k = 0 then HTTPError 404 (Text ''Not Found'') else Response 201 (Text ''{"number": 7}''))\<close>

definition unauthorized :: "nat \<Rightarrow> response" where
  "unauthorized k = HTTPError 401 (Text ''Bad credentials'')"

definition network_is_down :: "nat \<Rightarrow> response" where
  "network_is_down k = Raised ''<urlopen error [Errno -3] Temporary failure in name resolution>''"

text \<open>An answer to the prompt that is whitespace only: a space, a tab, a space.\<close>

definition blank_answer :: string where
  "blank_answer = [CHR '' '', CHR 0x09, CHR '' '']"


text \<open>
  The label exists; the first create-issue request is answered with status 502 and a body
  that is not UTF-8, as a gateway's error page in another encoding is; every later request
  would succeed.
\<close>

definition gateway_error :: "nat \<Rightarrow> response" where
  \<open>gateway_error k =
     (if k = 0 then Response 200 (Text ''{"name": "feature"}'')
      else if k = 1 then
        HTTPError 502 (ReadError ''utf-8 codec cannot decode byte 0xe9: invalid continuation byte'')
      else Response 201 (Text ''{"number": 7}''))\<close>

section \<open>Facts about the model\<close>

lemma sent_print [simp]: "sent (print l s) = sent s"
  by (simp add: print_def)

lemma out_print [simp]: "out (print l s) = out s @ [l]"
  by (simp add: print_def)

lemma call_urlopen_eq:
  "call_urlopen w req s =
     (urlopen w (length (sent s)) req,
      s\<lparr>sent := sent s @ [(req, urlopen w (length (sent s)) req)]\<rparr>)"
  by (simp add: call_urlopen_def Let_def)

lemma subscript_Inr: "(\<exists>v. subscript j k = Inr v) \<longleftrightarrow> (\<exists>items. j = JObject items \<and> k \<in> fst ` set items)"
  by (cases j) (auto simp: map_of_eq_None_iff split: option.splits dest: map_of_SomeD intro: rev_image_eqI)

lemma subscript_Inl: "(\<exists>e. subscript j k = Inl e) \<longleftrightarrow> \<not> (\<exists>items. j = JObject items \<and> k \<in> fst ` set items)"
  by (cases j) (auto simp: map_of_eq_None_iff split: option.splits dest: map_of_SomeD intro: rev_image_eqI)

lemma request_succeeded_iff:
  "request_succeeded w a \<longleftrightarrow>
     (\<exists>code payload items. a = Response code (Text payload) \<and>
        json_loads w payload = Some (JObject items) \<and> ''number'' \<in> fst ` set items)"
proof (cases a)
  case (Response code c)
  show ?thesis
  proof (cases c)
    case (Text payload)
    show ?thesis
    proof (cases "json_loads w payload")
      case None
      with Response Text show ?thesis
        by (simp add: request_succeeded_def)
    next
      case (Some j)
      with Response Text show ?thesis
        by (cases j) (simp_all add: request_succeeded_def)
    qed
  next
    case (ReadError msg)
    with Response show ?thesis
      by (simp add: request_succeeded_def)
  qed
next
  case (HTTPError code c)
  then show ?thesis
    by (simp add: request_succeeded_def)
next
  case (Raised msg)
  then show ?thesis
    by (simp add: request_succeeded_def)
qed

lemma handler_raises_iff:
  "handler_raises a \<longleftrightarrow> (\<exists>code msg. a = HTTPError code (ReadError msg))"
  by (cases a) (auto simp add: handler_raises_def split: content.splits)

lemma succeeded_not_raises: "request_succeeded w a \<Longrightarrow> \<not> handler_raises a"
  by (auto simp add: request_succeeded_iff handler_raises_iff)

text \<open>What \<^verbatim>\<open>create_issue\<close> returns, read off the answer of the network.\<close>

lemma create_issue_returns:
  assumes "\<not> handler_raises (urlopen w (length (sent s)) (issue_req token t b))"
  shows "fst (create_issue w token t b s) =
     Inr (request_succeeded w (urlopen w (length (sent s)) (issue_req token t b)))"
proof (cases "urlopen w (length (sent s)) (issue_req token t b)")
  case (Response code c)
  show ?thesis
  proof (cases c)
    case (Text payload)
    show ?thesis
    proof (cases "json_loads w payload")
      case None
      with Response Text show ?thesis
        by (simp add: create_issue_def call_urlopen_eq request_succeeded_def)
    next
      case (Some result)
      show ?thesis
      proof (cases "subscript result ''number''")
        case (Inl e)
        then have "\<not> (\<exists>items. result = JObject items \<and> ''number'' \<in> fst ` set items)"
          using subscript_Inl [of result "''number''"] by blast
        with Response Text Some Inl show ?thesis
          by (simp add: create_issue_def call_urlopen_eq request_succeeded_def split: json.splits)
      next
        case (Inr v)
        then obtain items where "result = JObject items" and "''number'' \<in> fst ` set items"
          using subscript_Inr [of result "''number''"] by blast
        with Response Text Some Inr show ?thesis
          by (simp add: create_issue_def call_urlopen_eq request_succeeded_def del: subscript.simps)
      qed
    qed
  next
    case (ReadError msg)
    with Response show ?thesis
      by (simp add: create_issue_def call_urlopen_eq request_succeeded_def)
  qed
next
  case (HTTPError code c)
  with assms obtain error_body where "c = Text error_body"
    by (cases c) (simp_all add: handler_raises_def)
  with HTTPError show ?thesis
    by (simp add: create_issue_def call_urlopen_eq request_succeeded_def)
next
  case (Raised msg)
  then show ?thesis
    by (simp add: create_issue_def call_urlopen_eq request_succeeded_def)
qed

lemma create_issue_raises:
  assumes "handler_raises (urlopen w (length (sent s)) (issue_req token t b))"
  shows "\<exists>msg. fst (create_issue w token t b s) = Inl (Exception msg)"
proof -
  from assms obtain code msg where
    "urlopen w (length (sent s)) (issue_req token t b) = HTTPError code (ReadError msg)"
    by (auto simp add: handler_raises_iff)
  then have "fst (create_issue w token t b s) = Inl (Exception msg)"
    by (simp add: create_issue_def call_urlopen_eq)
  then show ?thesis ..
qed

lemma create_issue_sent:
  "sent (snd (create_issue w token t b s)) =
     sent s @ [(issue_req token t b, urlopen w (length (sent s)) (issue_req token t b))]"
  by (simp add: create_issue_def call_urlopen_eq
      split: response.splits option.splits sum.splits content.splits)

text \<open>The loop: what it sends, what it counts, and when it ends with an exception.\<close>

lemma create_all_effect:
  "create_all w token n i ds (a, b, s) = (r, a', b', s') \<Longrightarrow>
   \<exists>new. sent s' = sent s @ new \<and>
     map fst new = take (length new) (map (\<lambda>d. issue_req token (title d) (body d)) ds) \<and>
     length new \<le> length ds \<and>
     (\<forall>x \<in> set new. \<exists>k. snd x = urlopen w k (fst x)) \<and>
     a' = a + length (filter (\<lambda>x. request_succeeded w (snd x)) new) \<and>
     b' = b + length (filter (\<lambda>x. \<not> request_succeeded w (snd x) \<and> \<not> handler_raises (snd x)) new) \<and>
     (r = None \<longrightarrow> length new = length ds \<and> (\<forall>x \<in> set new. \<not> handler_raises (snd x))) \<and>
     (r \<noteq> None \<longrightarrow> (\<exists>x \<in> set new. handler_raises (snd x)) \<and> (\<exists>msg. r = Some (Exception msg)))"
proof (induction ds arbitrary: i a b s)
  case Nil
  then show ?case by simp
next
  case (Cons d ds)
  let ?s = "print (Progress i n) s"
  let ?q = "issue_req token (title d) (body d)"
  let ?x = "(?q, urlopen w (length (sent s)) ?q)"
  obtain res s1 where step: "create_issue w token (title d) (body d) ?s = (res, s1)"
    by (cases "create_issue w token (title d) (body d) ?s") auto
  from step have s1: "sent s1 = sent s @ [?x]"
    using create_issue_sent [of w token "title d" "body d" ?s] by simp
  have k: "\<exists>k. snd ?x = urlopen w k (fst ?x)"
    by (rule exI [of _ "length (sent s)"]) simp
  show ?case
  proof (cases "handler_raises (snd ?x)")
    case True
    then have "handler_raises (urlopen w (length (sent ?s)) ?q)"
      by simp
    from create_issue_raises [OF this] obtain msg where
      "fst (create_issue w token (title d) (body d) ?s) = Inl (Exception msg)" ..
    with step have "res = Inl (Exception msg)"
      by simp
    with Cons.prems step have "r = Some (Exception msg)" "a' = a" "b' = b" "s' = s1"
      by simp_all
    moreover from True have "\<not> request_succeeded w (snd ?x)"
      using succeeded_not_raises by blast
    ultimately show ?thesis
      using s1 True k by (intro exI [of _ "[?x]"]) (simp del: snd_conv fst_conv, simp)
  next
    case False
    then have "\<not> handler_raises (urlopen w (length (sent ?s)) ?q)"
      by simp
    from create_issue_returns [OF this] step
    have res: "res = Inr (request_succeeded w (snd ?x))"
      by simp
    show ?thesis
    proof (cases "request_succeeded w (snd ?x)")
      case True
      with Cons.prems step res
      have "create_all w token n (Suc i) ds (Suc a, b, s1) = (r, a', b', s')"
        by simp
      from Cons.IH [OF this] obtain new where new:
        "sent s' = sent s1 @ new"
        "map fst new = take (length new) (map (\<lambda>d. issue_req token (title d) (body d)) ds)"
        "length new \<le> length ds"
        "\<forall>x \<in> set new. \<exists>k. snd x = urlopen w k (fst x)"
        "a' = Suc a + length (filter (\<lambda>x. request_succeeded w (snd x)) new)"
        "b' = b + length (filter (\<lambda>x. \<not> request_succeeded w (snd x) \<and> \<not> handler_raises (snd x)) new)"
        "r = None \<longrightarrow> length new = length ds \<and> (\<forall>x \<in> set new. \<not> handler_raises (snd x))"
        "r \<noteq> None \<longrightarrow> (\<exists>x \<in> set new. handler_raises (snd x)) \<and> (\<exists>msg. r = Some (Exception msg))"
        by blast
      from new s1 True False k show ?thesis
        by (intro exI [of _ "?x # new"]) (simp del: snd_conv fst_conv, simp)
    next
      case nok: False
      with Cons.prems step res
      have "create_all w token n (Suc i) ds (a, Suc b, s1) = (r, a', b', s')"
        by simp
      from Cons.IH [OF this] obtain new where new:
        "sent s' = sent s1 @ new"
        "map fst new = take (length new) (map (\<lambda>d. issue_req token (title d) (body d)) ds)"
        "length new \<le> length ds"
        "\<forall>x \<in> set new. \<exists>k. snd x = urlopen w k (fst x)"
        "a' = a + length (filter (\<lambda>x. request_succeeded w (snd x)) new)"
        "b' = Suc b + length (filter (\<lambda>x. \<not> request_succeeded w (snd x) \<and> \<not> handler_raises (snd x)) new)"
        "r = None \<longrightarrow> length new = length ds \<and> (\<forall>x \<in> set new. \<not> handler_raises (snd x))"
        "r \<noteq> None \<longrightarrow> (\<exists>x \<in> set new. handler_raises (snd x)) \<and> (\<exists>msg. r = Some (Exception msg))"
        by blast
      from new s1 nok False k show ?thesis
        by (intro exI [of _ "?x # new"]) (simp del: snd_conv fst_conv, simp)
    qed
  qed
qed

text \<open>The steps before the loop.\<close>

lemma get_github_token_fst: "fst (get_github_token w s) = fst (get_github_token w init)"
  by (simp add: get_github_token_def prompt_user_def Let_def split: option.splits)

lemma get_github_token_sent: "sent (snd (get_github_token w s)) = sent s"
  by (simp add: get_github_token_def prompt_user_def Let_def split: option.splits)

lemma label_urls: "label_url \<noteq> issues_url" "create_url \<noteq> issues_url"
  by (simp_all add: label_url_def create_url_def issues_url_def)

lemma check_and_create_label_fst:
  "sent s = [] \<Longrightarrow> fst (check_and_create_label w token s) = fst (check_and_create_label w token init)"
  by (simp add: check_and_create_label_def call_urlopen_eq init_def split: response.splits)

lemma check_and_create_label_sent:
  "sent s = [] \<Longrightarrow>
   sent (snd (check_and_create_label w token s)) = sent (snd (check_and_create_label w token init))"
  by (simp add: check_and_create_label_def call_urlopen_eq init_def split: response.splits)

lemma check_and_create_label_urls:
  "x \<in> set (sent (snd (check_and_create_label w token init))) \<Longrightarrow>
   url (fst x) \<noteq> issues_url \<and> headers (fst x) \<in> {api_headers token, api_headers token @ [(''Content-Type'', ''application/json'')]}"
  by (auto simp add: check_and_create_label_def call_urlopen_eq init_def label_req_def create_req_def label_urls
      split: response.splits if_splits)

lemma main_with_no_token:
  assumes "fst (get_github_token w init) = Inl e"
  shows "outcome (main_with ds w) = ends e \<and> sent (final (main_with ds w)) = [] \<and>
     success_count (main_with ds w) = 0 \<and> failed_count (main_with ds w) = 0"
proof -
  let ?s0 = "print (Header (length ds)) init"
  obtain s1 where g: "get_github_token w ?s0 = (Inl e, s1)"
    using assms get_github_token_fst [of w ?s0] by (cases "get_github_token w ?s0") simp
  have "sent s1 = []"
    using g get_github_token_sent [of w ?s0] by (simp add: init_def)
  with g show ?thesis
    by (simp add: main_with_def Let_def)
qed

lemma main_with_label_raises:
  assumes tok: "fst (get_github_token w init) = Inr token"
    and lab: "fst (check_and_create_label w token init) = Inl e"
  shows "outcome (main_with ds w) = ends e \<and>
     sent (final (main_with ds w)) = sent (snd (check_and_create_label w token init)) \<and>
     success_count (main_with ds w) = 0 \<and> failed_count (main_with ds w) = 0"
proof -
  let ?s0 = "print (Header (length ds)) init"
  obtain s1 where g: "get_github_token w ?s0 = (Inr token, s1)"
    using tok get_github_token_fst [of w ?s0] by (cases "get_github_token w ?s0") simp
  have s1: "sent s1 = []"
    using g get_github_token_sent [of w ?s0] by (simp add: init_def)
  let ?s1 = "print CheckingAccess s1"
  have e1: "sent ?s1 = []" using s1 by simp
  obtain s2 where c: "check_and_create_label w token ?s1 = (Inl e, s2)"
    using lab check_and_create_label_fst [OF e1, of w token]
    by (cases "check_and_create_label w token ?s1") simp
  have s2: "sent s2 = sent (snd (check_and_create_label w token init))"
    using c check_and_create_label_sent [OF e1, of w token] by simp
  from g c s2 show ?thesis
    by (simp add: main_with_def Let_def)
qed

text \<open>A run that reaches the loop.\<close>

lemma main_with_reached:
  assumes tok: "fst (get_github_token w init) = Inr token"
    and lab: "fst (check_and_create_label w token init) = Inr ()"
  shows "\<exists>new. sent (final (main_with ds w)) = sent (snd (check_and_create_label w token init)) @ new \<and>
     map fst new = take (length new) (map (\<lambda>d. issue_req token (title d) (body d)) ds) \<and>
     length new \<le> length ds \<and>
     (\<forall>x \<in> set new. \<exists>k. snd x = urlopen w k (fst x)) \<and>
     success_count (main_with ds w) = length (filter (\<lambda>x. request_succeeded w (snd x)) new) \<and>
     failed_count (main_with ds w) =
       length (filter (\<lambda>x. \<not> request_succeeded w (snd x) \<and> \<not> handler_raises (snd x)) new) \<and>
     ((\<forall>x \<in> set new. \<not> handler_raises (snd x)) \<longrightarrow>
        length new = length ds \<and>
        outcome (main_with ds w) = (if failed_count (main_with ds w) > 0 then Exit 1 else Exit 0) \<and>
        Summary (success_count (main_with ds w)) (failed_count (main_with ds w))
          \<in> set (out (final (main_with ds w)))) \<and>
     ((\<exists>x \<in> set new. handler_raises (snd x)) \<longrightarrow>
        (\<exists>msg. outcome (main_with ds w) = Uncaught msg))"
proof -
  let ?s0 = "print (Header (length ds)) init"
  obtain s1 where g: "get_github_token w ?s0 = (Inr token, s1)"
    using tok get_github_token_fst [of w ?s0] by (cases "get_github_token w ?s0") simp
  have s1: "sent s1 = []"
    using g get_github_token_sent [of w ?s0] by (simp add: init_def)
  let ?s1 = "print CheckingAccess s1"
  have e1: "sent ?s1 = []" using s1 by simp
  obtain s2 where c: "check_and_create_label w token ?s1 = (Inr (), s2)"
    using lab check_and_create_label_fst [OF e1, of w token]
    by (cases "check_and_create_label w token ?s1") simp
  have s2: "sent s2 = sent (snd (check_and_create_label w token init))"
    using c check_and_create_label_sent [OF e1, of w token] by simp
  obtain r a b s3 where l: "create_all w token (length ds) 1 ds (0, 0, print (Creating (length ds)) s2) = (r, a, b, s3)"
    by (cases "create_all w token (length ds) 1 ds (0, 0, print (Creating (length ds)) s2)") auto
  from create_all_effect [OF l] obtain new where new:
    "sent s3 = sent s2 @ new"
    "map fst new = take (length new) (map (\<lambda>d. issue_req token (title d) (body d)) ds)"
    "length new \<le> length ds"
    "\<forall>x \<in> set new. \<exists>k. snd x = urlopen w k (fst x)"
    "a = length (filter (\<lambda>x. request_succeeded w (snd x)) new)"
    "b = length (filter (\<lambda>x. \<not> request_succeeded w (snd x) \<and> \<not> handler_raises (snd x)) new)"
    "r = None \<longrightarrow> length new = length ds \<and> (\<forall>x \<in> set new. \<not> handler_raises (snd x))"
    "r \<noteq> None \<longrightarrow> (\<exists>x \<in> set new. handler_raises (snd x)) \<and> (\<exists>msg. r = Some (Exception msg))"
    by auto
  show ?thesis
  proof (cases r)
    case None
    then have m: "main_with ds w =
        \<lparr>outcome = (if b > 0 then Exit 1 else Exit 0),
         final = print ViewIssues (print (Summary a b) s3),
         success_count = a, failed_count = b\<rparr>"
      using g c l by (simp add: main_with_def Let_def)
    from None new(7) have all: "length new = length ds" "\<forall>x \<in> set new. \<not> handler_raises (snd x)"
      by simp_all
    show ?thesis
      using new(1-6) all s2 by (intro exI [of _ new]) (simp add: m)
  next
    case (Some e)
    with new(8) obtain msg where e: "r = Some (Exception msg)" and ex: "\<exists>x \<in> set new. handler_raises (snd x)"
      by auto
    then have m: "main_with ds w =
        \<lparr>outcome = Uncaught msg, final = s3, success_count = a, failed_count = b\<rparr>"
      using g c l by (simp add: main_with_def Let_def)
    show ?thesis
      using new(1-6) ex s2 by (intro exI [of _ new]) (simp add: m)
  qed
qed

lemma issue_exchanges_reached:
  assumes tok: "fst (get_github_token w init) = Inr token"
    and lab: "fst (check_and_create_label w token init) = Inr ()"
  shows "sent (final (main_with ds w)) =
       sent (snd (check_and_create_label w token init)) @ issue_exchanges (main_with ds w) \<and>
     map fst (issue_exchanges (main_with ds w)) =
       take (length (issue_exchanges (main_with ds w))) (map (\<lambda>d. issue_req token (title d) (body d)) ds) \<and>
     length (issue_exchanges (main_with ds w)) \<le> length ds \<and>
     (\<forall>x \<in> set (issue_exchanges (main_with ds w)). \<exists>k. snd x = urlopen w k (fst x)) \<and>
     success_count (main_with ds w) =
       length (filter (\<lambda>x. request_succeeded w (snd x)) (issue_exchanges (main_with ds w))) \<and>
     failed_count (main_with ds w) =
       length (filter (\<lambda>x. \<not> request_succeeded w (snd x) \<and> \<not> handler_raises (snd x))
         (issue_exchanges (main_with ds w))) \<and>
     ((\<forall>x \<in> set (issue_exchanges (main_with ds w)). \<not> handler_raises (snd x)) \<longrightarrow>
        length (issue_exchanges (main_with ds w)) = length ds \<and>
        outcome (main_with ds w) = (if failed_count (main_with ds w) > 0 then Exit 1 else Exit 0) \<and>
        Summary (success_count (main_with ds w)) (failed_count (main_with ds w))
          \<in> set (out (final (main_with ds w)))) \<and>
     ((\<exists>x \<in> set (issue_exchanges (main_with ds w)). handler_raises (snd x)) \<longrightarrow>
        (\<exists>msg. outcome (main_with ds w) = Uncaught msg))"
proof -
  from main_with_reached [OF tok lab, of ds] obtain new where new:
    "sent (final (main_with ds w)) = sent (snd (check_and_create_label w token init)) @ new"
    "map fst new = take (length new) (map (\<lambda>d. issue_req token (title d) (body d)) ds)"
    and rest: "length new \<le> length ds \<and>
     (\<forall>x \<in> set new. \<exists>k. snd x = urlopen w k (fst x)) \<and>
     success_count (main_with ds w) = length (filter (\<lambda>x. request_succeeded w (snd x)) new) \<and>
     failed_count (main_with ds w) =
       length (filter (\<lambda>x. \<not> request_succeeded w (snd x) \<and> \<not> handler_raises (snd x)) new) \<and>
     ((\<forall>x \<in> set new. \<not> handler_raises (snd x)) \<longrightarrow>
        length new = length ds \<and>
        outcome (main_with ds w) = (if failed_count (main_with ds w) > 0 then Exit 1 else Exit 0) \<and>
        Summary (success_count (main_with ds w)) (failed_count (main_with ds w))
          \<in> set (out (final (main_with ds w)))) \<and>
     ((\<exists>x \<in> set new. handler_raises (snd x)) \<longrightarrow>
        (\<exists>msg. outcome (main_with ds w) = Uncaught msg))"
    by blast
  have "set (map fst new) \<subseteq> set (map (\<lambda>d. issue_req token (title d) (body d)) ds)"
    unfolding new(2) by (rule set_take_subset)
  then have "\<forall>q \<in> set (map fst new). url q = issues_url"
    by (auto simp add: issue_req_def)
  then have a: "filter (\<lambda>x. url (fst x) = issues_url) new = new"
    by (auto intro: filter_True)
  have b: "filter (\<lambda>x. url (fst x) = issues_url) (sent (snd (check_and_create_label w token init))) = []"
    using check_and_create_label_urls [of _ w token] by (auto simp: filter_empty_conv)
  have eq: "issue_exchanges (main_with ds w) = new"
    by (simp add: issue_exchanges_def new(1) a b)
  show ?thesis
    unfolding eq using new rest by blast
qed

text \<open>How many issue requests a run sends.\<close>

lemma issue_exchanges_bound: "length (issue_exchanges (main_with ds w)) \<le> length ds"
proof (cases "fst (get_github_token w init)")
  case (Inl e)
  from main_with_no_token [OF Inl, of ds] show ?thesis
    by (simp add: issue_exchanges_def)
next
  case (Inr token)
  show ?thesis
  proof (cases "fst (check_and_create_label w token init)")
    case (Inl e)
    have "filter (\<lambda>x. url (fst x) = issues_url) (sent (snd (check_and_create_label w token init))) = []"
      using check_and_create_label_urls [of _ w token] by (auto simp: filter_empty_conv)
    with main_with_label_raises [OF Inr Inl, of ds] show ?thesis
      by (simp add: issue_exchanges_def)
  next
    case r: (Inr u)
    then have lab: "fst (check_and_create_label w token init) = Inr ()" by simp
    from issue_exchanges_reached [OF Inr lab, of ds] show ?thesis
      by blast
  qed
qed

lemma issue_exchanges_complete:
  assumes tok: "fst (get_github_token w init) = Inr token"
    and lab: "fst (check_and_create_label w token init) = Inr ()"
    and ex: "outcome (main_with ds w) = Exit status"
  shows "map fst (issue_exchanges (main_with ds w)) = map (\<lambda>d. issue_req token (title d) (body d)) ds"
proof -
  note r = issue_exchanges_reached [OF tok lab, of ds]
  have none: "\<forall>x \<in> set (issue_exchanges (main_with ds w)). \<not> handler_raises (snd x)"
  proof (rule ccontr)
    assume "\<not> ?thesis"
    then have "\<exists>x \<in> set (issue_exchanges (main_with ds w)). handler_raises (snd x)"
      by blast
    with r obtain msg where "outcome (main_with ds w) = Uncaught msg"
      by blast
    with ex show False by simp
  qed
  with r have "length (issue_exchanges (main_with ds w)) = length ds"
    by blast
  with r show ?thesis
    by simp
qed

text \<open>The label step.\<close>

lemma label_requests_cases:
  "label_requests w token s =
     (case urlopen w (length (sent s)) (label_req token) of
        HTTPError code payload \<Rightarrow>
          if code = 404 then [label_req token, create_req token] else [label_req token]
      | _ \<Rightarrow> [label_req token])"
  by (simp add: label_requests_def check_and_create_label_def call_urlopen_eq split: response.splits)

lemma label_requests_prefix:
  "map fst (sent (snd (check_and_create_label w token s))) = map fst (sent s) @ label_requests w token s"
  by (simp add: label_requests_def check_and_create_label_def call_urlopen_eq split: response.splits)

text \<open>Stripping.\<close>

lemma rev_dropWhile_split: "xs = rev (dropWhile P (rev xs)) @ rev (takeWhile P (rev xs))"
proof -
  have "rev xs = takeWhile P (rev xs) @ dropWhile P (rev xs)"
    by simp
  then have "rev (rev xs) = rev (takeWhile P (rev xs) @ dropWhile P (rev xs))"
    by (rule arg_cong)
  then show ?thesis
    by (simp only: rev_rev_ident rev_append)
qed

lemma strip_decomposition:
  "\<exists>l r. s = l @ strip s @ r \<and> (\<forall>c \<in> set l. isspace c) \<and> (\<forall>c \<in> set r. isspace c)"
proof -
  let ?m = "dropWhile isspace s"
  let ?l = "takeWhile isspace s"
  let ?r = "rev (takeWhile isspace (rev ?m))"
  have m: "?m = strip s @ ?r"
    unfolding strip_def by (rule rev_dropWhile_split)
  have "s = ?l @ ?m" by simp
  with m have "s = ?l @ strip s @ ?r" by simp
  moreover have "\<forall>c \<in> set ?l. isspace c"
    by (auto dest: set_takeWhileD)
  moreover have "\<forall>c \<in> set ?r. isspace c"
    by (auto dest: set_takeWhileD)
  ultimately show ?thesis by blast
qed

lemma strip_empty_iff: "strip s = [] \<longleftrightarrow> (\<forall>c \<in> set s. isspace c)"
proof
  assume "strip s = []"
  with strip_decomposition [of s] show "\<forall>c \<in> set s. isspace c"
    by (metis append_Nil set_append Un_iff)
next
  assume "\<forall>c \<in> set s. isspace c"
  then have d: "dropWhile isspace s = []" by (induction s) simp_all
  show "strip s = []" unfolding strip_def d by simp
qed

lemma strip_last: "strip s \<noteq> [] \<Longrightarrow> \<not> isspace (last (strip s))"
proof -
  assume ne: "strip s \<noteq> []"
  let ?d = "dropWhile isspace (rev (dropWhile isspace s))"
  from ne have d: "?d \<noteq> []" by (simp add: strip_def)
  then have "\<not> isspace (hd ?d)" by (rule hd_dropWhile)
  moreover have "last (strip s) = hd ?d"
    using d by (simp add: strip_def last_rev)
  ultimately show ?thesis by simp
qed

lemma strip_hd: "strip s \<noteq> [] \<Longrightarrow> \<not> isspace (hd (strip s))"
proof -
  assume ne: "strip s \<noteq> []"
  let ?m = "dropWhile isspace s"
  have "\<exists>r. ?m = strip s @ r"
  proof -
    have "?m = strip s @ rev (takeWhile isspace (rev ?m))"
      unfolding strip_def by (rule rev_dropWhile_split)
    then show ?thesis ..
  qed
  then obtain r where m: "?m = strip s @ r" ..
  with ne have mne: "?m \<noteq> []" by auto
  then have "\<not> isspace (hd ?m)" by (rule hd_dropWhile)
  moreover from m ne have "hd ?m = hd (strip s)" by (metis hd_append2)
  ultimately show ?thesis by simp
qed

lemma strip_id: "s \<noteq> [] \<Longrightarrow> \<not> isspace (hd s) \<Longrightarrow> \<not> isspace (last s) \<Longrightarrow> strip s = s"
proof -
  assume ne: "s \<noteq> []" and h: "\<not> isspace (hd s)" and l: "\<not> isspace (last s)"
  from ne h have a: "dropWhile isspace s = s" by (cases s) simp_all
  from ne l have "dropWhile isspace (rev s) = rev s"
    by (cases "rev s") (simp_all add: last_rev [symmetric] hd_rev)
  with a show ?thesis by (simp add: strip_def)
qed

text \<open>The data and the headers.\<close>

lemma length_ISSUES: "length ISSUES = 37"
  by (simp add: ISSUES_def)

lemma api_headers_lookup:
  "map_of (api_headers token) ''Authorization'' = Some (''token '' @ token)"
  "map_of (api_headers token) ''Accept'' = Some ''application/vnd.github.v3+json''"
  "map_of (api_headers token @ [(''Content-Type'', ''application/json'')]) ''Authorization'' = Some (''token '' @ token)"
  "map_of (api_headers token @ [(''Content-Type'', ''application/json'')]) ''Accept'' = Some ''application/vnd.github.v3+json''"
  by (simp_all add: api_headers_def)

lemma issue_req_lookup:
  "map_of (headers (issue_req token t b)) ''Authorization'' = Some (''token '' @ token)"
  "map_of (headers (issue_req token t b)) ''Accept'' = Some ''application/vnd.github.v3+json''"
  by (simp_all add: issue_req_def)

text \<open>Unfolding a run on a concrete world.\<close>

lemmas run_defs =
  main_with_def get_github_token_def prompt_user_def check_and_create_label_def
  create_issue_def call_urlopen_eq init_def print_def issue_exchanges_def
  label_req_def create_req_def issue_req_def label_url_def create_url_def issues_url_def
  REPO_OWNER_def REPO_NAME_def api_headers_def

lemmas example_defs =
  example_world_def example_loads_def three_drafts_def second_is_refused_def

section \<open>The credential resolver prefers the argument, then the environment, then the prompt\<close>

text \<open>
  Claim C2. Whatever the environment and the prompt offer, a run with a command-line
  argument resolves to that argument. Without an argument, a run whose \<^verbatim>\<open>GITHUB_TOKEN\<close> is
  set and not empty resolves to its value. With neither, the run resolves to the answer to
  the prompt: to the answer without its surrounding whitespace, which is the answer itself
  when it neither starts nor ends with whitespace.
\<close>

theorem token_priority:
  "(1 < length (argv w) \<longrightarrow> fst (get_github_token w s) = Inr (argv w ! 1)) \<and>
   (length (argv w) \<le> 1 \<and> environ w ''GITHUB_TOKEN'' = Some e \<and> e \<noteq> [] \<longrightarrow>
      fst (get_github_token w s) = Inr e) \<and>
   (length (argv w) \<le> 1 \<and> environ w ''GITHUB_TOKEN'' \<in> {None, Some []} \<and>
      strip (stdin_line w) \<noteq> [] \<longrightarrow>
      fst (get_github_token w s) = Inr (strip (stdin_line w))) \<and>
   (length (argv w) \<le> 1 \<and> environ w ''GITHUB_TOKEN'' \<in> {None, Some []} \<and>
      stdin_line w \<noteq> [] \<and> \<not> isspace (hd (stdin_line w)) \<and> \<not> isspace (last (stdin_line w)) \<longrightarrow>
      fst (get_github_token w s) = Inr (stdin_line w))"
proof -
  have "stdin_line w \<noteq> [] \<and> \<not> isspace (hd (stdin_line w)) \<and> \<not> isspace (last (stdin_line w)) \<longrightarrow>
      strip (stdin_line w) = stdin_line w"
    using strip_id [of "stdin_line w"] by blast
  then show ?thesis
    by (auto simp add: get_github_token_def prompt_user_def Let_def)
qed

theorem token_priority_witness:
  "fst (get_github_token
     (example_world [''from-argument''] (Some ''from-environment'') ''from-prompt'' unauthorized) init)
     = Inr ''from-argument'' \<and>
   fst (get_github_token
     (example_world [] (Some ''from-environment'') ''from-prompt'' unauthorized) init)
     = Inr ''from-environment'' \<and>
   fst (get_github_token (example_world [] None ''from-prompt'' unauthorized) init)
     = Inr ''from-prompt'' \<and>
   fst (get_github_token (example_world [] (Some []) ''from-prompt'' unauthorized) init)
     = Inr ''from-prompt''"
proof -
  have sp: "\<not> isspace CHR ''f''" "\<not> isspace CHR ''t''"
    by (simp_all add: isspace_def)
  from token_priority [where w = "example_world [''from-argument''] (Some ''from-environment'') ''from-prompt'' unauthorized" and s = init]
    token_priority [where w = "example_world [] (Some ''from-environment'') ''from-prompt'' unauthorized" and e = "''from-environment''" and s = init]
    token_priority [where w = "example_world [] None ''from-prompt'' unauthorized" and s = init]
    token_priority [where w = "example_world [] (Some []) ''from-prompt'' unauthorized" and s = init]
  show ?thesis
    by (simp add: example_world_def sp)
qed

section \<open>The label ensurer creates the label only when the check says it is missing\<close>

text \<open>
  Claim C4. When the label check is answered with status 404, the label ensurer sends the
  check and then exactly one create-label POST, with the fixed name, description and colour;
  when the check is answered with status 200 it sends the check alone and no POST.
\<close>

theorem label_check_then_create:
  "(urlopen w (length (sent s)) (label_req token) = HTTPError 404 payload \<longrightarrow>
      label_requests w token s =
        [\<lparr>url = label_url, data = None, headers = api_headers token, http_method = GET\<rparr>,
         \<lparr>url = create_url,
          data = Some (JObject
            [(''name'', JString ''feature''),
             (''description'', JString ''New feature or enhancement''),
             (''color'', JString ''0E8A16'')]),
          headers = api_headers token @ [(''Content-Type'', ''application/json'')],
          http_method = POST\<rparr>] \<and>
      length (filter (\<lambda>q. http_method q = POST) (label_requests w token s)) = 1) \<and>
   (urlopen w (length (sent s)) (label_req token) = Response 200 payload \<longrightarrow>
      label_requests w token s =
        [\<lparr>url = label_url, data = None, headers = api_headers token, http_method = GET\<rparr>] \<and>
      length (filter (\<lambda>q. http_method q = POST) (label_requests w token s)) = 0) \<and>
   map fst (sent (snd (check_and_create_label w token s))) = map fst (sent s) @ label_requests w token s"
  by (simp add: label_requests_cases label_requests_prefix label_req_def create_req_def)

theorem label_check_then_create_witness:
  "length (label_requests (example_world [''t''] None [] label_is_missing) ''t'' init) = 2 \<and>
   length (filter (\<lambda>q. http_method q = POST)
     (label_requests (example_world [''t''] None [] label_is_missing) ''t'' init)) = 1 \<and>
   length (label_requests (example_world [''t''] None [] second_is_refused) ''t'' init) = 1 \<and>
   length (filter (\<lambda>q. http_method q = POST)
     (label_requests (example_world [''t''] None [] second_is_refused) ''t'' init)) = 0"
proof -
  have a: "urlopen (example_world [''t''] None [] label_is_missing) (length (sent init)) (label_req ''t'')
      = HTTPError 404 (Text ''Not Found'')"
    by (simp add: example_world_def label_is_missing_def init_def)
  have b: "urlopen (example_world [''t''] None [] second_is_refused) (length (sent init)) (label_req ''t'')
      = Response 200 (Text ''{\"name\": \"feature\"}'')"
    by (simp add: example_world_def second_is_refused_def init_def)
  from label_check_then_create [of "example_world [''t''] None [] label_is_missing" init "''t''" "Text ''Not Found''"]
    label_check_then_create [of "example_world [''t''] None [] second_is_refused" init "''t''" "Text ''{\"name\": \"feature\"}''"]
    a b
  show ?thesis by simp
qed

section \<open>The answer to the prompt is stripped before it is tested and returned\<close>

text \<open>
  Claim C9. In a run without a command-line argument and without a usable \<^verbatim>\<open>GITHUB_TOKEN\<close>,
  an answer to the prompt that is whitespace only counts as no token: the resolver exits with
  status 1, and so does the process, with no request sent. Any other answer is returned
  without its leading and trailing whitespace: the answer is \<open>l @ t @ r\<close> with \<open>l\<close> and \<open>r\<close>
  whitespace, \<open>t\<close> is not empty and neither starts nor ends with whitespace, and \<open>t\<close> is the
  token.
\<close>

theorem prompt_answer_is_stripped:
  assumes arg: "length (argv w) \<le> 1"
    and env: "environ w ''GITHUB_TOKEN'' \<in> {None, Some []}"
  shows "((\<forall>c \<in> set (stdin_line w). isspace c) \<longrightarrow>
       fst (get_github_token w s) = Inl (SystemExit 1) \<and>
       outcome (main_with ds w) = Exit 1 \<and>
       sent (final (main_with ds w)) = []) \<and>
     (\<not> (\<forall>c \<in> set (stdin_line w). isspace c) \<longrightarrow>
       (\<exists>l t r. stdin_line w = l @ t @ r \<and>
          (\<forall>c \<in> set l. isspace c) \<and> (\<forall>c \<in> set r. isspace c) \<and>
          t \<noteq> [] \<and> \<not> isspace (hd t) \<and> \<not> isspace (last t) \<and>
          fst (get_github_token w s) = Inr t))"
proof (cases "\<forall>c \<in> set (stdin_line w). isspace c")
  case True
  then have e: "strip (stdin_line w) = []"
    by (simp only: strip_empty_iff)
  with arg env have g: "fst (get_github_token w s) = Inl (SystemExit 1)" for s
    by (auto simp add: get_github_token_def prompt_user_def Let_def)
  from main_with_no_token [OF g, of ds] g True show ?thesis
    by simp
next
  case False
  let ?t = "strip (stdin_line w)"
  from False have ne: "?t \<noteq> []"
    by (simp only: strip_empty_iff not_False_eq_True)
  from strip_decomposition [of "stdin_line w"] obtain l r where
    d: "stdin_line w = l @ ?t @ r" "\<forall>c \<in> set l. isspace c" "\<forall>c \<in> set r. isspace c"
    by blast
  from arg env ne have g: "fst (get_github_token w s) = Inr ?t"
    by (auto simp add: get_github_token_def prompt_user_def Let_def)
  from d ne strip_hd [OF ne] strip_last [OF ne] g
  have "\<exists>l t r. stdin_line w = l @ t @ r \<and>
          (\<forall>c \<in> set l. isspace c) \<and> (\<forall>c \<in> set r. isspace c) \<and>
          t \<noteq> [] \<and> \<not> isspace (hd t) \<and> \<not> isspace (last t) \<and>
          fst (get_github_token w s) = Inr t"
    by blast
  with False show ?thesis by blast
qed

theorem prompt_answer_is_stripped_witness:
  "fst (get_github_token (example_world [] None blank_answer unauthorized) init) = Inl (SystemExit 1) \<and>
   outcome (main_with three_drafts (example_world [] None blank_answer unauthorized)) = Exit 1 \<and>
   sent (final (main_with three_drafts (example_world [] None blank_answer unauthorized))) = [] \<and>
   fst (get_github_token (example_world [] None ''  abc d '' unauthorized) init) = Inr ''abc d''"
proof -
  have sp: "isspace CHR '' ''" "isspace (CHR 0x09)" "\<not> isspace CHR ''a''" "\<not> isspace CHR ''d''"
    by (simp_all add: isspace_def)
  have a: "length (argv (example_world [] None x unauthorized)) \<le> 1"
    and b: "environ (example_world [] None x unauthorized) ''GITHUB_TOKEN'' \<in> {None, Some []}" for x
    by (simp_all add: example_world_def)
  have c: "\<forall>c \<in> set (stdin_line (example_world [] None blank_answer unauthorized)). isspace c"
    by (simp add: example_world_def blank_answer_def sp)
  have d: "fst (get_github_token (example_world [] None ''  abc d '' unauthorized) init) = Inr ''abc d''"
    by (simp add: get_github_token_def prompt_user_def example_world_def strip_def sp)
  from prompt_answer_is_stripped [OF a b, of blank_answer init three_drafts] c d
  show ?thesis by blast
qed

section \<open>Every request carries the token and the media type\<close>

text \<open>
  Claim C8. Every request a run sends (the label check, the label creation and each issue
  creation) has the header \<^verbatim>\<open>Authorization\<close> with the value \<^verbatim>\<open>token\<close>, a space and the
  token the resolver returned, and the header \<^verbatim>\<open>Accept\<close> with the value
  \<^verbatim>\<open>application/vnd.github.v3+json\<close>.
\<close>

theorem requests_are_authorized:
  assumes x: "x \<in> set (sent (final (main_with ds w)))"
  shows "\<exists>token. fst (get_github_token w init) = Inr token \<and>
     map_of (headers (fst x)) ''Authorization'' = Some (''token '' @ token) \<and>
     map_of (headers (fst x)) ''Accept'' = Some ''application/vnd.github.v3+json''"
proof (cases "fst (get_github_token w init)")
  case (Inl e)
  from main_with_no_token [OF Inl, of ds] x show ?thesis by simp
next
  case (Inr token)
  have label: "map_of (headers (fst y)) ''Authorization'' = Some (''token '' @ token) \<and>
      map_of (headers (fst y)) ''Accept'' = Some ''application/vnd.github.v3+json''"
    if "y \<in> set (sent (snd (check_and_create_label w token init)))" for y
    using check_and_create_label_urls [OF that] by (auto simp add: api_headers_lookup)
  have "map_of (headers (fst x)) ''Authorization'' = Some (''token '' @ token) \<and>
      map_of (headers (fst x)) ''Accept'' = Some ''application/vnd.github.v3+json''"
  proof (cases "fst (check_and_create_label w token init)")
    case (Inl e)
    from main_with_label_raises [OF Inr Inl, of ds] x label show ?thesis by simp
  next
    case r: (Inr u)
    then have lab: "fst (check_and_create_label w token init) = Inr ()" by simp
    note ex = issue_exchanges_reached [OF Inr lab, of ds]
    from ex x consider "x \<in> set (sent (snd (check_and_create_label w token init)))"
      | "x \<in> set (issue_exchanges (main_with ds w))"
      by auto
    then show ?thesis
    proof cases
      case 1
      then show ?thesis by (rule label)
    next
      case 2
      then have "fst x \<in> set (map fst (issue_exchanges (main_with ds w)))" by simp
      with ex have "fst x \<in> set (take (length (issue_exchanges (main_with ds w)))
          (map (\<lambda>d. issue_req token (title d) (body d)) ds))"
        by simp
      then have "fst x \<in> set (map (\<lambda>d. issue_req token (title d) (body d)) ds)"
        by (rule in_set_takeD)
      then have "\<exists>d \<in> set ds. fst x = issue_req token (title d) (body d)" by auto
      then obtain d :: issue where "fst x = issue_req token (title d) (body d)" by blast
      then show ?thesis by (simp add: issue_req_lookup)
    qed
  qed
  with Inr show ?thesis by blast
qed

theorem requests_are_authorized_witness:
  "(label_req ''t'', Response 200 (Text ''{\"name\": \"feature\"}''))
     \<in> set (sent (final (main_with three_drafts (example_world [''t''] None [] second_is_refused)))) \<and>
   map_of (headers (label_req ''t'')) ''Authorization'' = Some ''token t'' \<and>
   map_of (headers (label_req ''t'')) ''Accept'' = Some ''application/vnd.github.v3+json''"
proof -
  let ?w = "example_world [''t''] None [] second_is_refused"
  let ?x = "(label_req ''t'', Response 200 (Text ''{\"name\": \"feature\"}''))"
  have x: "?x \<in> set (sent (final (main_with three_drafts ?w)))"
    by (simp add: run_defs example_defs)
  have tok: "fst (get_github_token ?w init) = Inr ''t''"
    by (simp add: run_defs example_defs)
  from requests_are_authorized [OF x] tok x show ?thesis
    by simp
qed

section \<open>The number of drafts\<close>

text \<open>
  Claim C7, as stated, fails: \<^verbatim>\<open>ISSUES\<close> does not hold 38 entries, and a run that finds no
  token sends no create-issue request at all.
\<close>

theorem issues_count_counterexample:
  "length ISSUES \<noteq> 38 \<and>
   length (issue_exchanges (main (example_world [] None [] second_is_refused))) \<noteq> 38"
proof -
  let ?w = "example_world [] None [] second_is_refused"
  have "fst (get_github_token ?w init) = Inl (SystemExit 1)"
    by (simp add: run_defs example_defs strip_def)
  from main_with_no_token [OF this, of ISSUES]
  have "issue_exchanges (main ?w) = []"
    by (simp add: main_def issue_exchanges_def)
  then show ?thesis
    by (simp add: length_ISSUES)
qed

text \<open>
  Claim C7, amended. \<^verbatim>\<open>ISSUES\<close> holds exactly 37 title and body pairs. No run attempts more
  than 37 create-issue requests, and a run that reaches the publisher (a token was resolved
  and the label step returned) and ends with an exit status, not with an exception, attempts
  exactly 37.
\<close>

theorem issues_count:
  "length ISSUES = 37 \<and>
   length (issue_exchanges (main w)) \<le> 37 \<and>
   (fst (get_github_token w init) = Inr token \<and>
    fst (check_and_create_label w token init) = Inr () \<and>
    outcome (main w) = Exit status \<longrightarrow>
    length (issue_exchanges (main w)) = 37)"
proof -
  have a: "length (issue_exchanges (main w)) \<le> 37"
    using issue_exchanges_bound [of ISSUES w] by (simp add: main_def length_ISSUES)
  have b: "length (issue_exchanges (main w)) = 37"
    if tok: "fst (get_github_token w init) = Inr token"
      and lab: "fst (check_and_create_label w token init) = Inr ()"
      and ex: "outcome (main w) = Exit status"
  proof -
    from ex have "outcome (main_with ISSUES w) = Exit status"
      by (simp add: main_def)
    from issue_exchanges_complete [OF tok lab this]
    have "length (map fst (issue_exchanges (main w))) = length ISSUES"
      by (simp add: main_def)
    then show ?thesis
      by (simp add: length_ISSUES)
  qed
  from a b show ?thesis
    by (simp add: length_ISSUES)
qed

theorem issues_count_witness:
  "length ISSUES = 37 \<and>
   outcome (main (example_world [''t''] None [] unauthorized)) = Exit 1 \<and>
   length (issue_exchanges (main (example_world [''t''] None [] unauthorized))) = 37"
proof -
  let ?w = "example_world [''t''] None [] unauthorized"
  have tok: "fst (get_github_token ?w init) = Inr ''t''"
    by (simp add: run_defs example_world_def)
  have lab: "fst (check_and_create_label ?w ''t'' init) = Inr ()"
    by (simp add: run_defs example_world_def unauthorized_def)
  note r = issue_exchanges_reached [OF tok lab, of ISSUES]
  have ans: "\<forall>x \<in> set (issue_exchanges (main_with ISSUES ?w)). snd x = HTTPError 401 (Text ''Bad credentials'')"
  proof
    fix x assume "x \<in> set (issue_exchanges (main_with ISSUES ?w))"
    with r obtain k where "snd x = urlopen ?w k (fst x)" by blast
    then show "snd x = HTTPError 401 (Text ''Bad credentials'')"
      by (simp add: example_world_def unauthorized_def)
  qed
  then have none: "\<forall>x \<in> set (issue_exchanges (main_with ISSUES ?w)). \<not> handler_raises (snd x)"
    by (simp add: handler_raises_def)
  with r have len: "length (issue_exchanges (main_with ISSUES ?w)) = length ISSUES"
    and out: "outcome (main_with ISSUES ?w) = (if failed_count (main_with ISSUES ?w) > 0 then Exit 1 else Exit 0)"
    and fc: "failed_count (main_with ISSUES ?w) =
       length (filter (\<lambda>x. \<not> request_succeeded ?w (snd x) \<and> \<not> handler_raises (snd x))
         (issue_exchanges (main_with ISSUES ?w)))"
    by blast+
  from ans have "filter (\<lambda>x. \<not> request_succeeded ?w (snd x) \<and> \<not> handler_raises (snd x))
         (issue_exchanges (main_with ISSUES ?w)) = issue_exchanges (main_with ISSUES ?w)"
    by (intro filter_True) (simp add: handler_raises_def request_succeeded_def)
  with fc len have "failed_count (main_with ISSUES ?w) = 37"
    by (simp add: length_ISSUES)
  with out have ex: "outcome (main ?w) = Exit 1"
    by (simp add: main_def)
  from issues_count [of ?w "''t''" 1] tok lab ex show ?thesis
    by blast
qed

section \<open>What counts as a created issue\<close>



section \<open>An empty command-line argument\<close>

text \<open>
  Claim C3 says that the resolver returns a token that is not empty or ends the process with
  status 1 before any request. The code tests only \<^verbatim>\<open>len(sys.argv) > 1\<close> before it returns
  \<^verbatim>\<open>sys.argv[1]\<close>, while the environment and the prompt are both passed over when empty.
  Run as \<^verbatim>\<open>create-roadmap-issues.py ""\<close>, with a token in the environment and one at the
  prompt, the resolver returns the empty string, and the run sends all its 38 requests
  (the label check first) with it.
\<close>

theorem empty_argument_is_returned:
  "fst (get_github_token
     (example_world [''''] (Some ''from-environment'') ''from-prompt'' unauthorized) init) = Inr '''' \<and>
   length (sent (final (main
     (example_world [''''] (Some ''from-environment'') ''from-prompt'' unauthorized)))) = 38 \<and>
   fst (hd (sent (final (main
     (example_world [''''] (Some ''from-environment'') ''from-prompt'' unauthorized))))) = label_req ''''"
proof -
  let ?w = "example_world [''''] (Some ''from-environment'') ''from-prompt'' unauthorized"
  have tok: "fst (get_github_token ?w init) = Inr ''''"
    by (simp add: get_github_token_def example_world_def)
  have lab: "check_and_create_label ?w '''' init =
      (Inr (), \<lparr>sent = [(label_req '''', HTTPError 401 (Text ''Bad credentials''))],
         out = [LabelCheckWarning 401]\<rparr>)"
    by (simp add: check_and_create_label_def call_urlopen_eq init_def print_def example_world_def
        unauthorized_def)
  then have lab': "fst (check_and_create_label ?w '''' init) = Inr ()"
    by simp
  note r = issue_exchanges_reached [OF tok lab', of ISSUES]
  from r have s: "sent (final (main ?w)) =
      (label_req '''', HTTPError 401 (Text ''Bad credentials'')) # issue_exchanges (main ?w)"
    by (simp add: main_def lab)
  have "\<forall>x \<in> set (issue_exchanges (main_with ISSUES ?w)). \<not> handler_raises (snd x)"
  proof
    fix x assume "x \<in> set (issue_exchanges (main_with ISSUES ?w))"
    with r obtain k where "snd x = urlopen ?w k (fst x)" by blast
    then show "\<not> handler_raises (snd x)"
      by (simp add: example_world_def unauthorized_def handler_raises_def)
  qed
  with r have "length (issue_exchanges (main_with ISSUES ?w)) = length ISSUES"
    by blast
  then have "length (issue_exchanges (main ?w)) = 37"
    by (simp add: main_def length_ISSUES)
  with s tok show ?thesis by simp
qed

section \<open>A transport error in the label step\<close>

text \<open>
  Claim C5 says that no outcome of the label requests lets an exception escape. The handlers
  of \<^verbatim>\<open>check_and_create_label\<close> catch \<^verbatim>\<open>HTTPError\<close> only, where \<^verbatim>\<open>create_issue\<close> also has
  \<^verbatim>\<open>except Exception\<close>. When the label check cannot reach the server, the exception leaves
  \<^verbatim>\<open>check_and_create_label\<close> and \<^verbatim>\<open>main\<close>: the process ends with a traceback, no warning is
  printed and no issue is attempted.
\<close>

theorem label_check_transport_error_escapes:
  "fst (check_and_create_label (example_world [''t''] None [] network_is_down) ''t'' init) =
     Inl (Exception ''<urlopen error [Errno -3] Temporary failure in name resolution>'') \<and>
   outcome (main (example_world [''t''] None [] network_is_down)) =
     Uncaught ''<urlopen error [Errno -3] Temporary failure in name resolution>'' \<and>
   issue_exchanges (main (example_world [''t''] None [] network_is_down)) = [] \<and>
   out (final (main (example_world [''t''] None [] network_is_down))) =
     [Header (length ISSUES), CheckingAccess]"
proof -
  let ?w = "example_world [''t''] None [] network_is_down"
  let ?m = "''<urlopen error [Errno -3] Temporary failure in name resolution>''"
  have tok: "get_github_token ?w s = (Inr ''t'', s)" for s
    by (simp add: get_github_token_def example_world_def)
  have lab: "check_and_create_label ?w ''t'' s =
      (Inl (Exception ?m), s\<lparr>sent := sent s @ [(label_req ''t'', Raised ?m)]\<rparr>)" for s
    by (simp add: check_and_create_label_def call_urlopen_eq example_world_def network_is_down_def)
  have m: "main ?w =
      \<lparr>outcome = Uncaught ?m,
       final = \<lparr>sent = [(label_req ''t'', Raised ?m)], out = [Header (length ISSUES), CheckingAccess]\<rparr>,
       success_count = 0, failed_count = 0\<rparr>"
    by (simp add: main_def main_with_def tok lab init_def print_def)
  show ?thesis
    by (simp add: m lab issue_exchanges_def label_req_def label_urls)
qed

section \<open>An error body that cannot be read\<close>

text \<open>
  Claim C1 says that a run over \<open>N\<close> drafts of which \<open>K\<close> requests fail attempts all \<open>N\<close>,
  reports \<open>N - K\<close> successes and \<open>K\<close> failures, and exits by \<open>K\<close>. The \<^verbatim>\<open>HTTPError\<close> handler of
  \<^verbatim>\<open>create_issue\<close> reads and decodes the error body before it prints and returns, outside
  any \<^verbatim>\<open>try\<close>. Over three drafts, with the first request answered by status 502 and a body
  that is not UTF-8, the exception leaves \<^verbatim>\<open>create_issue\<close> and \<^verbatim>\<open>main\<close>: one request of
  three is attempted, the failure is not counted, no summary is printed and the process
  ends with a traceback.
\<close>

theorem unreadable_error_body_ends_the_run:
  "map fst (issue_exchanges (main_with three_drafts (example_world [''t''] None [] gateway_error))) =
     [issue_req ''t'' ''one'' ''first''] \<and>
   outcome (main_with three_drafts (example_world [''t''] None [] gateway_error)) =
     Uncaught ''utf-8 codec cannot decode byte 0xe9: invalid continuation byte'' \<and>
   success_count (main_with three_drafts (example_world [''t''] None [] gateway_error)) = 0 \<and>
   failed_count (main_with three_drafts (example_world [''t''] None [] gateway_error)) = 0 \<and>
   out (final (main_with three_drafts (example_world [''t''] None [] gateway_error))) =
     [Header 3, CheckingAccess, LabelExists, Creating 3, Progress 1 3]"
  by (simp add: run_defs example_world_def three_drafts_def gateway_error_def)

section \<open>Drafts after an error body that cannot be read\<close>

text \<open>
  Claim C6 says that every draft of \<^verbatim>\<open>ISSUES\<close> gets one create-issue POST with its title,
  its body and the label. Each request the publisher sends is such a POST, for the next
  draft in order; but the exception that leaves the \<^verbatim>\<open>HTTPError\<close> handler of
  \<^verbatim>\<open>create_issue\<close> ends the loop. With the first request answered by status 502 and a body
  that is not UTF-8, the run posts the first of the 37 drafts and none of the others.
\<close>

theorem later_drafts_are_not_posted:
  "map fst (issue_exchanges (main (example_world [''t''] None [] gateway_error))) =
     [\<lparr>url = issues_url,
       data = Some (JObject
         [(''title'', JString ''Visual Schema Editor''),
          (''body'', JString body_01),
          (''labels'', JArray [JString ''feature''])]),
       headers =
         [(''Authorization'', ''token t''),
          (''Accept'', ''application/vnd.github.v3+json''),
          (''Content-Type'', ''application/json'')],
       http_method = POST\<rparr>] \<and>
   length ISSUES = 37"
proof -
  let ?w = "example_world [''t''] None [] gateway_error"
  obtain rest where i: "ISSUES = \<lparr>title = ''Visual Schema Editor'', body = body_01\<rparr> # rest"
    by (simp add: ISSUES_def)
  have "map fst (issue_exchanges (main_with (\<lparr>title = ''Visual Schema Editor'', body = body_01\<rparr> # rest) ?w)) =
      [issue_req ''t'' ''Visual Schema Editor'' body_01]"
    by (simp add: run_defs example_world_def gateway_error_def)
  with i show ?thesis
    by (simp add: main_def issue_req_def length_ISSUES)
qed

end
